theory Spec2Isabelle
  imports Complex_Main
begin

unbundle bit_operations_syntax

section \<open>Common data\<close>

text \<open>
  The light compiler computes on C \<open>float\<close>/\<open>double\<close> values. They are modelled as
  real numbers: every statement below about a computed quantity holds for the exact
  arithmetic of the program text, without rounding.
\<close>

type_synonym vec_t = real
type_synonym vec3_t = "real \<times> real \<times> real"

text \<open>\<open>v[i]\<close> for the three components of a vector.\<close>

fun vidx :: "vec3_t \<Rightarrow> nat \<Rightarrow> real" where
  "vidx (x, y, z) i = (if i = 0 then x else if i = 1 then y else z)"

fun vset :: "vec3_t \<Rightarrow> nat \<Rightarrow> real \<Rightarrow> vec3_t" where
  "vset (x, y, z) i r = (if i = 0 then (r, y, z) else if i = 1 then (x, r, z) else (x, y, r))"

text \<open>
  How a call can end without a value: \<open>Q_assert\<close> fails, \<open>Error\<close>/\<open>FError\<close> prints
  its message and exits, or an array is read or written out of its range without a check
  (undefined behaviour in the source, an error here). \<open>Not_a_number\<close> marks a
  floating-point operation whose result is no real number (a division by zero, the square
  root of a negative number): what the source computes from there is outside this model.
\<close>

datatype error =
    Q_assert_failed
  | Fatal string
  | Invalid_access
  | Not_a_number

section \<open>The BSP view (common/bsputils.cc)\<close>

record dplane_t =
  normal :: vec3_t
  dist :: real
  plane_type :: int

record bsp2_dnode_t =
  node_planenum :: int
  children :: "int \<times> int"
  firstface :: int
  numfaces :: int

record mleaf_t =
  contents :: int
  firstmarksurface :: int
  nummarksurfaces :: int

record mface_t =
  face_planenum :: int
  side :: int
  firstedge :: int
  numedges :: int
  face_texinfo :: int

record gtexinfo_t =
  miptex :: int
  flags :: int
  texture :: string

record miptex_t =
  miptex_name :: string

record rgba_miptex_t =
  rgba_name :: string

record dmodelh2_t =
  mins :: vec3_t
  maxs :: vec3_t
  headnode :: "nat \<Rightarrow> int"

datatype gameid_t = GAME_QUAKE | GAME_HEXEN_II | GAME_HALF_LIFE | GAME_QUAKE_II

record mbsp_t =
  game_id :: gameid_t
  dmodels :: "dmodelh2_t list"
  dnodes :: "bsp2_dnode_t list"
  dleafs :: "mleaf_t list"
  dplanes :: "dplane_t list"
  dfaces :: "mface_t list"
  texinfo :: "gtexinfo_t list"
  dtex_textures :: "miptex_t list"
  drgbatexdata :: "rgba_miptex_t list"
  dvertexes :: "vec3_t list"
  dedges :: "(int \<times> int) list"
  dsurfedges :: "int list"
  dmarksurfaces :: "int list"

text \<open>
  Modelled from the spec: the leaf content codes the spec names (EMPTY, SOLID, WATER,
  SLIME, LAVA, SKY of Quake 1, the SOLID bit of Quake 2) are defined in common/bspfile.hh,
  outside the files read here. The values are those of the file formats; no statement
  below depends on them.
\<close>

definition CONTENTS_EMPTY :: int where "CONTENTS_EMPTY = -1"
definition CONTENTS_SOLID :: int where "CONTENTS_SOLID = -2"
definition CONTENTS_WATER :: int where "CONTENTS_WATER = -3"
definition CONTENTS_SLIME :: int where "CONTENTS_SLIME = -4"
definition CONTENTS_LAVA :: int where "CONTENTS_LAVA = -5"
definition CONTENTS_SKY :: int where "CONTENTS_SKY = -6"
definition Q2_CONTENTS_SOLID :: int where "Q2_CONTENTS_SOLID = 1"

text \<open>\<open>0 <= i && i < v.size()\<close>\<close>

definition in_range :: "int \<Rightarrow> 'a list \<Rightarrow> bool" where
  "in_range i xs \<longleftrightarrow> 0 \<le> i \<and> i < int (length xs)"

text \<open>\<open>v[i]\<close> on a \<open>std::vector\<close> or a raw array: no check in the source.\<close>

definition raw_index :: "'a list \<Rightarrow> int \<Rightarrow> error + 'a" where
  "raw_index xs i = (if in_range i xs then Inr (xs ! nat i) else Inl Invalid_access)"

definition BSP_GetNode :: "mbsp_t \<Rightarrow> int \<Rightarrow> error + bsp2_dnode_t" where
  "BSP_GetNode bsp nodenum =
     (if nodenum \<ge> 0 \<and> nodenum < int (length (dnodes bsp))
      then Inr (dnodes bsp ! nat nodenum) else Inl Q_assert_failed)"

definition BSP_GetLeaf :: "mbsp_t \<Rightarrow> int \<Rightarrow> error + mleaf_t" where
  "BSP_GetLeaf bsp leafnum =
     (if leafnum < 0 \<or> leafnum \<ge> int (length (dleafs bsp))
      then Inl (Fatal ''Corrupt BSP: leaf is out of bounds'')
      else Inr (dleafs bsp ! nat leafnum))"

definition BSP_GetLeafFromNodeNum :: "mbsp_t \<Rightarrow> int \<Rightarrow> error + mleaf_t" where
  "BSP_GetLeafFromNodeNum bsp nodenum = (let leafnum = -1 - nodenum in BSP_GetLeaf bsp leafnum)"

definition BSP_GetPlane :: "mbsp_t \<Rightarrow> int \<Rightarrow> error + dplane_t" where
  "BSP_GetPlane bsp planenum =
     (if planenum \<ge> 0 \<and> planenum < int (length (dplanes bsp))
      then Inr (dplanes bsp ! nat planenum) else Inl Q_assert_failed)"

definition BSP_GetFace :: "mbsp_t \<Rightarrow> int \<Rightarrow> error + mface_t" where
  "BSP_GetFace bsp fnum =
     (if fnum \<ge> 0 \<and> fnum < int (length (dfaces bsp))
      then Inr (dfaces bsp ! nat fnum) else Inl Q_assert_failed)"

text \<open>A null pointer result is \<open>None\<close>.\<close>

definition BSP_GetTexinfo :: "mbsp_t \<Rightarrow> int \<Rightarrow> gtexinfo_t option" where
  "BSP_GetTexinfo bsp ti =
     (if ti < 0 then None
      else if ti \<ge> int (length (texinfo bsp)) then None
      else Some (texinfo bsp ! nat ti))"

definition Vertex_GetPos :: "mbsp_t \<Rightarrow> int \<Rightarrow> error + vec3_t" where
  "Vertex_GetPos bsp num =
     (if num \<ge> 0 \<and> num < int (length (dvertexes bsp))
      then Inr (dvertexes bsp ! nat num) else Inl Q_assert_failed)"

definition Face_Texinfo :: "mbsp_t \<Rightarrow> mface_t \<Rightarrow> gtexinfo_t option" where
  "Face_Texinfo bsp face =
     (if face_texinfo face < 0 \<or> face_texinfo face \<ge> int (length (texinfo bsp))
      then None
      else Some (texinfo bsp ! nat (face_texinfo face)))"

definition Face_Miptex :: "mbsp_t \<Rightarrow> mface_t \<Rightarrow> error + miptex_t option" where
  "Face_Miptex bsp face =
     (if length (dtex_textures bsp) = 0 then Inr None
      else case Face_Texinfo bsp face of
        None \<Rightarrow> Inr None
      | Some ti \<Rightarrow>
          (case raw_index (dtex_textures bsp) (miptex ti) of
             Inl e \<Rightarrow> Inl e
           | Inr mt \<Rightarrow> if length (miptex_name mt) = 0 then Inr None else Inr (Some mt)))"

definition Face_RgbaMiptex :: "mbsp_t \<Rightarrow> mface_t \<Rightarrow> error + rgba_miptex_t option" where
  "Face_RgbaMiptex bsp face =
     (if length (drgbatexdata bsp) = 0 then Inr None
      else case Face_Texinfo bsp face of
        None \<Rightarrow> Inr None
      | Some ti \<Rightarrow>
          (case raw_index (drgbatexdata bsp) (miptex ti) of
             Inl e \<Rightarrow> Inl e
           | Inr mt \<Rightarrow> Inr (Some mt)))"

text \<open>A \<open>std::string\<close> read as a C string ends at its first NUL.\<close>

definition c_str :: "string \<Rightarrow> string" where
  "c_str s = takeWhile (\<lambda>c. c \<noteq> CHR 0x00) s"

definition Face_TextureName :: "mbsp_t \<Rightarrow> mface_t \<Rightarrow> error + string" where
  "Face_TextureName bsp face =
     (case Face_Miptex bsp face of
        Inl e \<Rightarrow> Inl e
      | Inr (Some mt) \<Rightarrow> Inr (c_str (miptex_name mt))
      | Inr None \<Rightarrow>
          (case Face_RgbaMiptex bsp face of
             Inl e \<Rightarrow> Inl e
           | Inr (Some rt) \<Rightarrow> Inr (c_str (rgba_name rt))
           | Inr None \<Rightarrow>
               (case Face_Texinfo bsp face of
                  Some ti \<Rightarrow> if c_str (texture ti) \<noteq> [] then Inr (c_str (texture ti)) else Inr []
                | None \<Rightarrow> Inr [])))"

text \<open>
  Modelled from the spec: \<open>qplane3d::distance_to_fast\<close> is declared in
  common/qvec.hh, outside the files read here. It is the spec's "signed distance to
  plane", read off one coordinate for an axial plane, as \<open>Plane_Dist\<close> of
  light/entities.cc writes it out.
\<close>

definition DotProduct :: "vec3_t \<Rightarrow> vec3_t \<Rightarrow> real" where
  "DotProduct a b = vidx a 0 * vidx b 0 + vidx a 1 * vidx b 1 + vidx a 2 * vidx b 2"

definition distance_to_fast :: "dplane_t \<Rightarrow> vec3_t \<Rightarrow> real" where
  "distance_to_fast plane point =
     (if plane_type plane = 0 then vidx point 0 - dist plane
      else if plane_type plane = 1 then vidx point 1 - dist plane
      else if plane_type plane = 2 then vidx point 2 - dist plane
      else DotProduct point (normal plane) - dist plane)"

text \<open>
  The descent recurses on child indices read from the node array, so on a node array with
  a cycle it never returns. The first argument bounds the depth of the recursion;
  \<open>None\<close> is the run that needs more.
\<close>

fun Light_PointInSolid_r :: "nat \<Rightarrow> mbsp_t \<Rightarrow> int \<Rightarrow> vec3_t \<Rightarrow> (error + bool) option" where
  "Light_PointInSolid_r 0 bsp nodenum point = None"
| "Light_PointInSolid_r (Suc fuel) bsp nodenum point =
     (if nodenum < 0 then
        (case BSP_GetLeafFromNodeNum bsp nodenum of
           Inl e \<Rightarrow> Some (Inl e)
         | Inr leaf \<Rightarrow>
             if game_id bsp = GAME_QUAKE_II
             then Some (Inr (contents leaf AND Q2_CONTENTS_SOLID \<noteq> 0))
             else Some (Inr (contents leaf = CONTENTS_SOLID \<or> contents leaf = CONTENTS_SKY)))
      else
        (case raw_index (dnodes bsp) nodenum of
           Inl e \<Rightarrow> Some (Inl e)
         | Inr node \<Rightarrow>
             (case raw_index (dplanes bsp) (node_planenum node) of
                Inl e \<Rightarrow> Some (Inl e)
              | Inr plane \<Rightarrow>
                  (let d = distance_to_fast plane point in
                   if d > 0.1 then Light_PointInSolid_r fuel bsp (fst (children node)) point
                   else if d < -0.1 then Light_PointInSolid_r fuel bsp (snd (children node)) point
                   else
                     (case Light_PointInSolid_r fuel bsp (fst (children node)) point of
                        Some (Inr False) \<Rightarrow> Light_PointInSolid_r fuel bsp (snd (children node)) point
                      | r \<Rightarrow> r)))))"

definition outside_bounds :: "dmodelh2_t \<Rightarrow> vec3_t \<Rightarrow> bool" where
  "outside_bounds model point \<longleftrightarrow>
     (\<exists>i \<in> {0, 1, 2}. vidx point i < vidx (mins model) i \<or> vidx point i > vidx (maxs model) i)"

definition Light_PointInSolid :: "nat \<Rightarrow> mbsp_t \<Rightarrow> dmodelh2_t \<Rightarrow> vec3_t \<Rightarrow> (error + bool) option" where
  "Light_PointInSolid fuel bsp model point =
     (if outside_bounds model point then Some (Inr False)
      else Light_PointInSolid_r fuel bsp (headnode model 0) point)"

section \<open>Entity dictionaries and the entity lump (light/entities.cc)\<close>

text \<open>
  Modelled from the spec: the type \<open>entdict_t\<close> is declared in light/entities.hh, which
  is outside the files read here. The spec has each dict as "an ordered mapping
  string\<rightarrow>string", "preserving insertion order of keys per dict": a list of pairs with
  one pair per key, a new key going to the end.
\<close>

type_synonym entdict_t = "(string \<times> string) list"

text \<open>\<open>dict[key] = value\<close>\<close>

fun entdict_assign :: "entdict_t \<Rightarrow> string \<Rightarrow> string \<Rightarrow> entdict_t" where
  "entdict_assign [] key val = [(key, val)]"
| "entdict_assign ((k, v) # dict) key val =
     (if k = key then (k, val) # dict else (k, v) # entdict_assign dict key val)"


definition EntDict_StringForKey :: "entdict_t \<Rightarrow> string \<Rightarrow> string" where
  "EntDict_StringForKey dict key = (case map_of dict key of Some v \<Rightarrow> v | None \<Rightarrow> [])"

text \<open>
  \<open>std::stof\<close>, \<open>atoi\<close>, \<open>atof\<close>, \<open>sscanf\<close> and \<open>Random\<close> are library functions,
  \<open>ModelInfoForFace\<close> and \<open>Light_PointInLeaf\<close> are functions of other files: each is a
  parameter of the model. \<open>stof\<close> is \<open>None\<close> where the library throws; \<open>Random ext n\<close> is
  the value of the call number \<open>n\<close> (counted from 0) of \<open>Random()\<close>.
\<close>

record modelinfo_t =
  offset :: vec3_t

record externs =
  stof :: "string \<Rightarrow> real option"
  atoi :: "string \<Rightarrow> int"
  atof :: "string \<Rightarrow> real"
  sscanf_vec3 :: "string \<Rightarrow> vec3_t"
  Random :: "nat \<Rightarrow> real"
  ModelInfoForFace :: "mbsp_t \<Rightarrow> int \<Rightarrow> modelinfo_t option"
  Light_PointInLeaf :: "mbsp_t \<Rightarrow> vec3_t \<Rightarrow> int"


text \<open>Conversion of a floating-point value to \<open>int\<close>: towards zero.\<close>

definition intValue :: "real \<Rightarrow> int" where
  "intValue x = (if x \<ge> 0 then \<lfloor>x\<rfloor> else \<lceil>x\<rceil>)"

subsection \<open>Tokens\<close>

text \<open>
  Modelled from the spec: \<open>COM_Parse\<close> is defined in common/cmdlib.cc, outside the files
  read here. The spec's token grammar: "whitespace-separated; \<open>"..."\<close> string allows
  embedded spaces but no escapes at this layer; \<open>{\<close> and \<open>}\<close> are single-char tokens".
  The result is the token (the source's \<open>com_token\<close>) and the rest of the data, or
  \<open>None\<close> at the end of the data (the source's null pointer).
\<close>

definition is_space :: "char \<Rightarrow> bool" where
  "is_space c \<longleftrightarrow> (of_char c :: nat) \<le> 32"

definition is_word_char :: "char \<Rightarrow> bool" where
  "is_word_char c \<longleftrightarrow> \<not> is_space c \<and> c \<noteq> CHR ''{'' \<and> c \<noteq> CHR ''}''"

definition COM_Parse :: "string \<Rightarrow> (string \<times> string) option" where
  "COM_Parse data =
     (case dropWhile is_space data of
        [] \<Rightarrow> None
      | c # rest \<Rightarrow>
          if c = CHR 0x22 then
            Some (takeWhile (\<lambda>x. x \<noteq> CHR 0x22) rest, drop 1 (dropWhile (\<lambda>x. x \<noteq> CHR 0x22) rest))
          else if c = CHR ''{'' \<or> c = CHR ''}'' then Some ([c], rest)
          else Some (c # takeWhile is_word_char rest, dropWhile is_word_char rest))"

lemma COM_Parse_shorter: "COM_Parse data = Some (tok, rest) \<Longrightarrow> length rest < length data"
proof -
  assume a: "COM_Parse data = Some (tok, rest)"
  have d: "length (dropWhile P xs) \<le> length xs" for P and xs :: string
    by (induction xs) auto
  obtain c r where cr: "dropWhile is_space data = c # r"
    using a by (auto simp: COM_Parse_def split: list.splits)
  have "length rest \<le> length r"
    using a cr d [of "\<lambda>x. x \<noteq> CHR 0x22" r] d [of is_word_char r]
    by (auto simp: COM_Parse_def split: if_splits)
  moreover have "length (c # r) \<le> length data"
    using d [of is_space data] cr by simp
  ultimately show ?thesis by simp
qed

subsection \<open>EntData_Parse and EntData_Write\<close>

definition MAX_ENT_KEY :: nat where "MAX_ENT_KEY = 32"
definition MAX_ENT_VALUE :: nat where "MAX_ENT_VALUE = 1024"

text \<open>The inner loop of \<open>EntData_Parse\<close>: the keys and values of one entity.\<close>

function EntData_Parse_epairs :: "string \<Rightarrow> entdict_t \<Rightarrow> error + (entdict_t \<times> string)" where
  "EntData_Parse_epairs data entity =
     (case COM_Parse data of
        None \<Rightarrow> Inl (Fatal ''EntData_Parse: EOF without closing brace'')
      | Some (keystr, data1) \<Rightarrow>
          if keystr = ''}'' then Inr (entity, data1)
          else if length keystr > MAX_ENT_KEY - 1 then Inl (Fatal ''EntData_Parse: Key length > 31'')
          else
            (case COM_Parse data1 of
               None \<Rightarrow> Inl (Fatal ''EntData_Parse: EOF without closing brace'')
             | Some (valstring, data2) \<Rightarrow>
                 if take 1 valstring = ''}'' then Inl (Fatal ''EntData_Parse: closing brace without data'')
                 else if length valstring > MAX_ENT_VALUE - 1
                   then Inl (Fatal ''EntData_Parse: Value length > 1023'')
                 else EntData_Parse_epairs data2 (entdict_assign entity keystr valstring)))"
  by pat_completeness auto
termination
proof (relation "measure (\<lambda>(data, entity). length data)")
  show "wf (measure (\<lambda>(data, entity). length data))" by simp
next
  fix data :: string and entity :: entdict_t and x2 keystr data1 x2a valstring data2
  assume "COM_Parse data = Some x2" "(keystr, data1) = x2"
    "COM_Parse data1 = Some x2a" "(valstring, data2) = x2a"
  then have "length data1 < length data" "length data2 < length data1"
    using COM_Parse_shorter [of data keystr data1] COM_Parse_shorter [of data1 valstring data2]
    by auto
  then show "((data2, entdict_assign entity keystr valstring), (data, entity))
      \<in> measure (\<lambda>(data, entity). length data)"
    by simp
qed

declare EntData_Parse_epairs.simps [simp del]

lemma EntData_Parse_epairs_shorter:
  "EntData_Parse_epairs data entity = Inr (e, rest) \<Longrightarrow> length rest < length data"
proof (induction data entity rule: EntData_Parse_epairs.induct)
  case (1 data entity)
  show ?case
  proof (cases "COM_Parse data")
    case None
    with "1.prems" show ?thesis by (simp add: EntData_Parse_epairs.simps [of data])
  next
    case (Some p)
    obtain keystr data1 where p: "p = (keystr, data1)" by (cases p)
    have l1: "length data1 < length data"
      using COM_Parse_shorter Some p by blast
    show ?thesis
    proof (cases "keystr = ''}''")
      case True
      with "1.prems" Some p l1 show ?thesis by (simp add: EntData_Parse_epairs.simps [of data])
    next
      case nb: False
      show ?thesis
      proof (cases "COM_Parse data1")
        case None
        with "1.prems" Some p nb show ?thesis
          by (simp add: EntData_Parse_epairs.simps [of data] split: if_splits)
      next
        case s2: (Some q)
        obtain valstring data2 where q: "q = (valstring, data2)" by (cases q)
        have l2: "length data2 < length data1"
          using COM_Parse_shorter s2 q by blast
        from "1.prems" Some p nb s2 q
        have ok: "\<not> length keystr > MAX_ENT_KEY - 1" "take 1 valstring \<noteq> ''}''"
          "\<not> length valstring > MAX_ENT_VALUE - 1"
          and rec: "EntData_Parse_epairs data2 (entdict_assign entity keystr valstring) = Inr (e, rest)"
          by (auto simp: EntData_Parse_epairs.simps [of data] split: if_splits)
        have "length rest < length data2"
          using "1.IH" [OF Some p [symmetric] nb ok(1) s2 q [symmetric] ok(2) ok(3) rec] .
        with l1 l2 show ?thesis by simp
      qed
    qed
  qed
qed

text \<open>The outer loop: one entity after the other, until the data ends.\<close>

function EntData_Parse_loop :: "string \<Rightarrow> entdict_t list \<Rightarrow> error + entdict_t list" where
  "EntData_Parse_loop data result =
     (case COM_Parse data of
        None \<Rightarrow> Inr result
      | Some (tok, data1) \<Rightarrow>
          if take 1 tok \<noteq> ''{'' then Inl (Fatal ''EntData_Parse: found token when expecting {'')
          else
            (case EntData_Parse_epairs data1 [] of
               Inl e \<Rightarrow> Inl e
             | Inr (entity, data2) \<Rightarrow> EntData_Parse_loop data2 (result @ [entity])))"
  by pat_completeness auto
termination
proof (relation "measure (\<lambda>(data, result). length data)")
  show "wf (measure (\<lambda>(data, result). length data))" by simp
next
  fix data :: string and result :: "entdict_t list" and x2 tok data1 b entity data2
  assume "COM_Parse data = Some x2" "(tok, data1) = x2"
    "EntData_Parse_epairs data1 [] = Inr b" "(entity, data2) = b"
  then have "length data1 < length data" "length data2 < length data1"
    using COM_Parse_shorter [of data tok data1] EntData_Parse_epairs_shorter [of data1 "[]" entity data2]
    by auto
  then show "((data2, result @ [entity]), (data, result)) \<in> measure (\<lambda>(data, result). length data)"
    by simp
qed

declare EntData_Parse_loop.simps [simp del]

text \<open>The parameter is a \<open>const char *\<close>.\<close>

definition EntData_Parse :: "string \<Rightarrow> error + entdict_t list" where
  "EntData_Parse entdata = EntData_Parse_loop (c_str entdata) []"

definition EntData_Write_epair :: "string \<times> string \<Rightarrow> string" where
  "EntData_Write_epair epair =
     [CHR 0x22] @ fst epair @ [CHR 0x22, CHR '' '', CHR 0x22] @ snd epair @ [CHR 0x22, CHR 0x0A]"

definition EntData_Write_ent :: "entdict_t \<Rightarrow> string" where
  "EntData_Write_ent ent =
     [CHR ''{'', CHR 0x0A] @ concat (map EntData_Write_epair ent) @ [CHR ''}'', CHR 0x0A]"

definition EntData_Write :: "entdict_t list \<Rightarrow> string" where
  "EntData_Write ents = concat (map EntData_Write_ent ents)"

subsection \<open>The first pass of LoadEntities\<close>

record sun_t =
  sun_sunvec :: vec3_t
  sun_sunlight :: real
  sun_sunlight_color :: vec3_t
  sun_anglescale :: real
  sun_dirt :: bool

text \<open>
  The fields of \<open>light_t\<close> that the functions below read or write. A setting
  (\<open>lockable_vec_t\<close>) is its \<open>floatValue()\<close>, and \<open>intValue()\<close> is \<open>intValue\<close> of it.
  \<open>epairs\<close> and \<open>targetent\<close> point into \<open>entdicts\<close>, which no function below changes
  once lights exist: the field holds the dict pointed to.
\<close>

record light_t =
  epairs :: entdict_t
  targetent :: "entdict_t option"
  origin :: vec3_t
  light :: real
  atten :: real
  anglescale :: real
  formula :: real
  deviance :: real
  samples :: real
  style :: real
  spotlight :: bool
  spotvec :: vec3_t
  spotangle :: real
  spotangle2 :: real
  spotfalloff :: real
  spotfalloff2 :: real
  generated :: bool
  leaf :: "int option"

text \<open>
  The variables of light/entities.cc with static storage, with the lines passed to
  \<open>logprint\<close> (their text without the formatted arguments) and the number of calls of
  \<open>Random()\<close> made so far.
\<close>

record globals =
  entdicts :: "entdict_t list"
  all_lights :: "light_t list"
  all_suns :: "sun_t list"
  lighttargetnames :: "string list"
  surfacelight_templates :: "light_t list"
  warned_once :: bool
  logged :: "string list"
  random_calls :: nat

text \<open>
  The state at program start. \<open>warned_once\<close> is the local static of
  \<open>CheckEntityFields\<close>, declared \<open>static qboolean warned_once = true\<close>.
\<close>

definition initial_globals :: globals where
  "initial_globals =
     \<lparr>entdicts = [], all_lights = [], all_suns = [], lighttargetnames = [],
      surfacelight_templates = [], warned_once = True, logged = [], random_calls = 0\<rparr>"

definition logprint :: "string \<Rightarrow> globals \<Rightarrow> globals" where
  "logprint msg g = g\<lparr>logged := logged g @ [msg]\<rparr>"

text \<open>
  The settings of light/light.cc that the functions below read (worldspawn keys and
  command-line options), fixed before the lights are set up.
\<close>

record settings =
  sunsamples :: int
  sun_deviance :: real
  sunlight :: real
  sunlight_color :: vec3_t
  sunvec :: vec3_t
  sunlight_dirt :: real
  sun2 :: real
  sun2_color :: vec3_t
  sun2vec :: vec3_t
  sunlight2 :: real
  sunlight2_color :: vec3_t
  sunlight2_dirt :: real
  sunlight3 :: real
  sunlight3_color :: vec3_t
  global_anglescale :: real
  globalDirt :: bool
  addminlight :: bool
  surflight_subdivide :: real


fun find_targetname :: "string list \<Rightarrow> string \<Rightarrow> nat \<Rightarrow> nat option" where
  "find_targetname [] targetname i = None"
| "find_targetname (n # names) targetname i =
     (if n = targetname then Some i else find_targetname names targetname (Suc i))"











subsection \<open>CheckEntityFields\<close>

text \<open>
  Modelled from the spec: \<open>light_formula_t\<close> and \<open>DEFAULTLIGHTLEVEL\<close> are defined in
  light/light.hh, outside the files read here. The spec lists the formulas as
  "LINEAR, INVERSE, INVERSE2, INFINITE, LOCALMIN, INVERSE2A"; \<open>LF_COUNT\<close> is their number.
\<close>

definition LF_LINEAR :: int where "LF_LINEAR = 0"
definition LF_INVERSE :: int where "LF_INVERSE = 1"
definition LF_INVERSE2 :: int where "LF_INVERSE2 = 2"
definition LF_INFINITE :: int where "LF_INFINITE = 3"
definition LF_LOCALMIN :: int where "LF_LOCALMIN = 4"
definition LF_INVERSE2A :: int where "LF_INVERSE2A = 5"
definition LF_COUNT :: int where "LF_COUNT = 6"
definition DEFAULTLIGHTLEVEL :: real where "DEFAULTLIGHTLEVEL = 300"

definition getFormula :: "light_t \<Rightarrow> int" where
  "getFormula entity = intValue (formula entity)"

definition CheckEntityFields :: "settings \<Rightarrow> light_t \<Rightarrow> globals \<Rightarrow> error + (light_t \<times> globals)" where
  "CheckEntityFields cfg entity0 g0 =
     (let entity1 = (if light entity0 = 0 then entity0\<lparr>light := DEFAULTLIGHTLEVEL\<rparr> else entity0);
          entity2 = (if atten entity1 \<le> 0 then entity1\<lparr>atten := 1\<rparr> else entity1);
          entity3 = (if anglescale entity2 < 0 \<or> anglescale entity2 > 1
                     then entity2\<lparr>anglescale := global_anglescale cfg\<rparr> else entity2);
          unknown = (getFormula entity3 < LF_LINEAR \<or> getFormula entity3 \<ge> LF_COUNT);
          g1 = (if unknown \<and> \<not> warned_once g0
                then logprint ''WARNING: unknown formula number in delay field''
                       (g0\<lparr>warned_once := True\<rparr>)
                else g0);
          entity4 = (if unknown then entity3\<lparr>formula := real_of_int LF_LINEAR\<rparr> else entity3);
          entity5 = (if deviance entity4 > 0 \<and> intValue (samples entity4) = 0
                     then entity4\<lparr>samples := 16\<rparr> else entity4);
          entity6 = (if deviance entity5 \<le> 0 \<or> intValue (samples entity5) \<le> 1
                     then entity5\<lparr>deviance := 0, samples := 1\<rparr> else entity5);
          entity7 = (if getFormula entity6 = LF_INVERSE
                        \<or> getFormula entity6 = LF_INVERSE2
                        \<or> getFormula entity6 = LF_INFINITE
                        \<or> (getFormula entity6 = LF_LOCALMIN \<and> addminlight cfg)
                        \<or> getFormula entity6 = LF_INVERSE2A
                     then entity6\<lparr>light := light entity6 / real_of_int (intValue (samples entity6))\<rparr>
                     else entity6)
      in if intValue (style entity7) < 0 \<or> intValue (style entity7) > 254
         then Inl (Fatal ''Bad light style (must be 0-254)'')
         else Inr (entity7, g1))"

subsection \<open>Suns and the sky dome\<close>

text \<open>
  Modelled from the spec: the vector helpers of common/mathlib.hh (\<open>VectorScale\<close>,
  \<open>VectorAdd\<close>, \<open>VectorSubtract\<close>, \<open>VectorMA\<close>, \<open>VectorNormalize\<close>, \<open>DEG2RAD\<close>)
  are outside the files read here. They are the componentwise operations of their names;
  \<open>VectorNormalize\<close> is the spec's "normalize" and leaves the zero vector as it is.
\<close>

definition VectorScale :: "vec3_t \<Rightarrow> real \<Rightarrow> vec3_t" where
  "VectorScale v r = (vidx v 0 * r, vidx v 1 * r, vidx v 2 * r)"

definition VectorAdd :: "vec3_t \<Rightarrow> vec3_t \<Rightarrow> vec3_t" where
  "VectorAdd a b = (vidx a 0 + vidx b 0, vidx a 1 + vidx b 1, vidx a 2 + vidx b 2)"

definition VectorSubtract :: "vec3_t \<Rightarrow> vec3_t \<Rightarrow> vec3_t" where
  "VectorSubtract a b = (vidx a 0 - vidx b 0, vidx a 1 - vidx b 1, vidx a 2 - vidx b 2)"

definition VectorMA :: "vec3_t \<Rightarrow> real \<Rightarrow> vec3_t \<Rightarrow> vec3_t" where
  "VectorMA a r b = (vidx a 0 + r * vidx b 0, vidx a 1 + r * vidx b 1, vidx a 2 + r * vidx b 2)"

definition VectorLength :: "vec3_t \<Rightarrow> real" where
  "VectorLength v = sqrt (DotProduct v v)"

definition VectorNormalize :: "vec3_t \<Rightarrow> vec3_t" where
  "VectorNormalize v = (if VectorLength v = 0 then v else VectorScale v (1 / VectorLength v))"

definition DEG2RAD :: "real \<Rightarrow> real" where
  "DEG2RAD a = a * (pi / 180)"

definition Dirt_ResolveFlag :: "settings \<Rightarrow> int \<Rightarrow> bool" where
  "Dirt_ResolveFlag cfg dirtInt =
     (if dirtInt = 1 then True else if dirtInt = -1 then False else globalDirt cfg)"

definition AddSun :: "settings \<Rightarrow> vec3_t \<Rightarrow> real \<Rightarrow> vec3_t \<Rightarrow> int \<Rightarrow> globals \<Rightarrow> globals" where
  "AddSun cfg sunvec_in light_in color dirtInt g =
     (let sun = \<lparr>sun_sunvec = VectorScale (VectorNormalize sunvec_in) (-16384),
                 sun_sunlight = light_in,
                 sun_sunlight_color = color,
                 sun_anglescale = global_anglescale cfg,
                 sun_dirt = Dirt_ResolveFlag cfg dirtInt\<rparr>
      in g\<lparr>all_suns := all_suns g @ [sun]\<rparr>)"

text \<open>\<open>atan2\<close> of the C library.\<close>

definition atan2 :: "real \<Rightarrow> real \<Rightarrow> real" where
  "atan2 y x =
     (if x > 0 then arctan (y / x)
      else if x < 0 \<and> y \<ge> 0 then arctan (y / x) + pi
      else if x < 0 \<and> y < 0 then arctan (y / x) - pi
      else if y > 0 then pi / 2
      else if y < 0 then - pi / 2
      else 0)"

text \<open>
  The \<open>do ... while\<close> of \<open>SetupSun\<close> draws two random numbers until the jitter is
  accepted. The first argument bounds the number of draws; \<open>None\<close> is the run that needs
  more. The result is the jitter and the number of the next call of \<open>Random()\<close>.
\<close>

fun SetupSun_jitter :: "nat \<Rightarrow> externs \<Rightarrow> settings \<Rightarrow> nat \<Rightarrow> (real \<times> real \<times> nat) option" where
  "SetupSun_jitter 0 ext cfg calls = None"
| "SetupSun_jitter (Suc fuel) ext cfg calls =
     (let da = (Random ext calls * 2 - 1) * DEG2RAD (sun_deviance cfg);
          de = (Random ext (calls + 1) * 2 - 1) * DEG2RAD (sun_deviance cfg)
      in if da * da + de * de > sun_deviance cfg * sun_deviance cfg
         then SetupSun_jitter fuel ext cfg (calls + 2)
         else Some (da, de, calls + 2))"

text \<open>
  The \<open>for\<close> loop of \<open>SetupSun\<close>, at sample \<open>i\<close> with \<open>n\<close> samples to go; \<open>sv\<close> is
  the normalized sun vector and \<open>l\<close> the light per sample.
\<close>

fun SetupSun_samples ::
  "nat \<Rightarrow> externs \<Rightarrow> settings \<Rightarrow> vec3_t \<Rightarrow> real \<Rightarrow> vec3_t \<Rightarrow> nat \<Rightarrow> nat \<Rightarrow> globals \<Rightarrow> globals option" where
  "SetupSun_samples fuel ext cfg sv l color i 0 g = Some g"
| "SetupSun_samples fuel ext cfg sv l color i (Suc n) g =
     (if i = 0 then
        SetupSun_samples fuel ext cfg sv l color (Suc i) n
          (AddSun cfg sv l color (intValue (sunlight_dirt cfg)) g)
      else
        (let d = sqrt (vidx sv 0 * vidx sv 0 + vidx sv 1 * vidx sv 1);
             angle = atan2 (vidx sv 1) (vidx sv 0);
             elevation = atan2 (vidx sv 2) d
         in case SetupSun_jitter fuel ext cfg (random_calls g) of
              None \<Rightarrow> None
            | Some (da, de, calls) \<Rightarrow>
                (let angle' = angle + da;
                     elevation' = elevation + de;
                     direction = (cos angle' * cos elevation', sin angle' * cos elevation', sin elevation')
                 in SetupSun_samples fuel ext cfg sv l color (Suc i) n
                      (AddSun cfg direction l color (intValue (sunlight_dirt cfg))
                         (g\<lparr>random_calls := calls\<rparr>)))))"

definition SetupSun :: "nat \<Rightarrow> externs \<Rightarrow> settings \<Rightarrow> real \<Rightarrow> vec3_t \<Rightarrow> vec3_t \<Rightarrow> globals \<Rightarrow> globals option" where
  "SetupSun fuel ext cfg light_in color sunvec_in g =
     (let sun_num_samples = (if sun_deviance cfg = 0 then 1 else sunsamples cfg);
          g1 = (if sun_deviance cfg = 0 then g
                else logprint ''using _sunlight_penumbra of %f degrees from worldspawn.'' g);
          sv = VectorNormalize sunvec_in;
          l = light_in / real_of_int sun_num_samples
      in SetupSun_samples fuel ext cfg sv l color 0 (nat sun_num_samples) g1)"

definition SetupSuns :: "nat \<Rightarrow> externs \<Rightarrow> settings \<Rightarrow> globals \<Rightarrow> globals option" where
  "SetupSuns fuel ext cfg g =
     (case SetupSun fuel ext cfg (sunlight cfg) (sunlight_color cfg) (sunvec cfg) g of
        None \<Rightarrow> None
      | Some g1 \<Rightarrow>
          if sun2 cfg \<noteq> 0
          then SetupSun fuel ext cfg (sun2 cfg) (sun2_color cfg) (sun2vec cfg) (logprint ''creating sun2'' g1)
          else Some g1)"

text \<open>Division of \<open>int\<close> values in C: towards zero.\<close>

definition c_div :: "int \<Rightarrow> int \<Rightarrow> int" where
  "c_div a b = sgn a * sgn b * (\<bar>a\<bar> div \<bar>b\<bar>)"

text \<open>\<open>rint\<close> of the C library in the default rounding mode: to nearest, ties to even.\<close>

definition rint :: "real \<Rightarrow> int" where
  "rint x =
     (let f = \<lfloor>x\<rfloor>; r = x - real_of_int f
      in if r < 1 / 2 then f else if r > 1 / 2 then f + 1 else if even f then f else f + 1)"

text \<open>The inner loop of \<open>SetupSkyDome\<close> with \<open>n\<close> angles to go; the result has the new angle.\<close>

fun SetupSkyDome_angles ::
  "settings \<Rightarrow> real \<Rightarrow> real \<Rightarrow> real \<Rightarrow> real \<Rightarrow> nat \<Rightarrow> real \<Rightarrow> globals \<Rightarrow> real \<times> globals" where
  "SetupSkyDome_angles cfg sunlight2value sunlight3value elevation angleStep 0 angle g = (angle, g)"
| "SetupSkyDome_angles cfg sunlight2value sunlight3value elevation angleStep (Suc n) angle g =
     (let direction = (cos angle * cos elevation, sin angle * cos elevation, - sin elevation);
          g1 = (if sunlight2value > 0
                then AddSun cfg direction sunlight2value (sunlight2_color cfg)
                       (intValue (sunlight2_dirt cfg)) g
                else g);
          direction' = vset direction 2 (- vidx direction 2);
          g2 = (if sunlight3value > 0
                then AddSun cfg direction' sunlight3value (sunlight3_color cfg)
                       (intValue (sunlight2_dirt cfg)) g1
                else g1)
      in SetupSkyDome_angles cfg sunlight2value sunlight3value elevation angleStep n
           (angle + angleStep) g2)"

text \<open>The outer loop with \<open>n\<close> elevations to go.\<close>

fun SetupSkyDome_elevations ::
  "settings \<Rightarrow> real \<Rightarrow> real \<Rightarrow> real \<Rightarrow> real \<Rightarrow> int \<Rightarrow> int \<Rightarrow> nat \<Rightarrow> real \<Rightarrow> real \<Rightarrow> globals \<Rightarrow> globals" where
  "SetupSkyDome_elevations cfg sunlight2value sunlight3value elevationStep angleStep
     angleSteps elevationSteps 0 elevation angle g = g"
| "SetupSkyDome_elevations cfg sunlight2value sunlight3value elevationStep angleStep
     angleSteps elevationSteps (Suc n) elevation angle g =
     (let (angle', g') =
            SetupSkyDome_angles cfg sunlight2value sunlight3value elevation angleStep
              (nat angleSteps) angle g
      in SetupSkyDome_elevations cfg sunlight2value sunlight3value elevationStep angleStep
           angleSteps elevationSteps n
           (elevation + elevationStep) (angle' + angleStep / real_of_int elevationSteps) g')"

definition SetupSkyDome_iterations :: "settings \<Rightarrow> error + int" where
  "SetupSkyDome_iterations cfg =
     (let q = c_div (sunsamples cfg - 1) 4
      in if q < 0 then Inl Not_a_number
         else Inr (max (rint (sqrt (real_of_int q)) + 1) 2))"

definition SetupSkyDome :: "settings \<Rightarrow> globals \<Rightarrow> error + globals" where
  "SetupSkyDome cfg g =
     (case SetupSkyDome_iterations cfg of
        Inl e \<Rightarrow> Inl e
      | Inr iterations \<Rightarrow>
          if sunlight2 cfg \<le> 0 \<and> sunlight3 cfg \<le> 0 then Inr g
          else
            (let elevationSteps = iterations - 1;
                 angleSteps = elevationSteps * 4;
                 elevationStep = DEG2RAD (90 / real_of_int (elevationSteps + 1));
                 angleStep = DEG2RAD (360 / real_of_int angleSteps);
                 numSuns = angleSteps * elevationSteps + 1;
                 g1 = (if sunlight2 cfg > 0
                       then logprint ''using %d suns for _sunlight2. total light: %f color: %f %f %f'' g
                       else g);
                 g2 = (if sunlight3 cfg > 0
                       then logprint ''using %d suns for _sunlight3. total light: %f color: %f %f %f'' g1
                       else g1);
                 sunlight2value = sunlight2 cfg / real_of_int numSuns;
                 sunlight3value = sunlight3 cfg / real_of_int numSuns;
                 g3 = SetupSkyDome_elevations cfg sunlight2value sunlight3value elevationStep
                        angleStep angleSteps elevationSteps (nat elevationSteps)
                        (elevationStep * 0.5) 0 g2;
                 g4 = (if sunlight2value > 0
                       then AddSun cfg (0, 0, 1) sunlight2value (sunlight2_color cfg)
                              (intValue (sunlight2_dirt cfg)) g3
                       else g3);
                 g5 = (if sunlight3value > 0
                       then AddSun cfg (0, 0, -1) sunlight3value (sunlight3_color cfg)
                              (intValue (sunlight2_dirt cfg)) g4
                       else g4)
             in Inr g5))"

subsection \<open>Jitter\<close>

definition DuplicateEntity :: "light_t \<Rightarrow> light_t" where
  "DuplicateEntity src = src"

text \<open>The loop of \<open>JitterEntity\<close> with \<open>n\<close> copies to go.\<close>

fun JitterEntity_copies :: "externs \<Rightarrow> light_t \<Rightarrow> nat \<Rightarrow> globals \<Rightarrow> globals" where
  "JitterEntity_copies ext entity 0 g = g"
| "JitterEntity_copies ext entity (Suc n) g =
     (let light2 = (DuplicateEntity entity)\<lparr>generated := True\<rparr>;
          c = random_calls g;
          neworigin =
            (vidx (origin entity) 0 + (Random ext c * 2 - 1) * deviance entity,
             vidx (origin entity) 1 + (Random ext (c + 1) * 2 - 1) * deviance entity,
             vidx (origin entity) 2 + (Random ext (c + 2) * 2 - 1) * deviance entity);
          light2' = light2\<lparr>origin := neworigin\<rparr>
      in JitterEntity_copies ext entity n
           (g\<lparr>all_lights := all_lights g @ [light2'], random_calls := c + 3\<rparr>))"

definition JitterEntity :: "externs \<Rightarrow> light_t \<Rightarrow> globals \<Rightarrow> globals" where
  "JitterEntity ext entity g = JitterEntity_copies ext entity (nat (intValue (samples entity) - 1)) g"

text \<open>The loop of \<open>JitterEntities\<close> from index \<open>i\<close> with \<open>n\<close> lights to go.\<close>

fun JitterEntities_from :: "externs \<Rightarrow> nat \<Rightarrow> nat \<Rightarrow> globals \<Rightarrow> globals" where
  "JitterEntities_from ext i 0 g = g"
| "JitterEntities_from ext i (Suc n) g =
     JitterEntities_from ext (Suc i) n (JitterEntity ext (all_lights g ! i) g)"

definition JitterEntities :: "externs \<Rightarrow> globals \<Rightarrow> globals" where
  "JitterEntities ext g = (let starting_size = length (all_lights g) in JitterEntities_from ext 0 starting_size g)"

subsection \<open>Targets, spotlights, lights in solid\<close>

text \<open>
  A call that can fail and can run on for ever returns \<open>Some (Inr v)\<close> with its value,
  \<open>Some (Inl e)\<close> at an error and \<open>None\<close> where the bound on its recursion is too
  small. \<open>rbind\<close> runs the next step on the value.
\<close>

definition rbind :: "(error + 'a) option \<Rightarrow> ('a \<Rightarrow> (error + 'b) option) \<Rightarrow> (error + 'b) option" where
  "rbind m f = (case m of None \<Rightarrow> None | Some (Inl e) \<Rightarrow> Some (Inl e) | Some (Inr v) \<Rightarrow> f v)"

definition ValueForKey :: "light_t \<Rightarrow> string \<Rightarrow> string" where
  "ValueForKey ent key = c_str (EntDict_StringForKey (epairs ent) key)"

fun MatchTargets_loop :: "entdict_t list \<Rightarrow> light_t list \<Rightarrow> string list \<Rightarrow> light_t list \<times> string list" where
  "MatchTargets_loop dicts [] lg = ([], lg)"
| "MatchTargets_loop dicts (entity # rest) lg =
     (let targetstr = ValueForKey entity ''target'' in
      if length targetstr = 0 then
        (let (rest', lg') = MatchTargets_loop dicts rest lg in (entity # rest', lg'))
      else
        (case find (\<lambda>target. targetstr = EntDict_StringForKey target ''targetname'') dicts of
           Some target \<Rightarrow>
             (let (rest', lg') = MatchTargets_loop dicts rest lg
              in (entity\<lparr>targetent := Some target\<rparr> # rest', lg'))
         | None \<Rightarrow>
             (let (rest', lg') =
                    MatchTargets_loop dicts rest (lg @ [''WARNING: entity has unmatched target''])
              in (entity # rest', lg'))))"

definition MatchTargets :: "globals \<Rightarrow> globals" where
  "MatchTargets g =
     (let (lights', lg') = MatchTargets_loop (entdicts g) (all_lights g) (logged g)
      in g\<lparr>all_lights := lights', logged := lg'\<rparr>)"

definition EntDict_VectorForKey :: "externs \<Rightarrow> entdict_t \<Rightarrow> string \<Rightarrow> vec3_t" where
  "EntDict_VectorForKey ext ent key = sscanf_vec3 ext (c_str (EntDict_StringForKey ent key))"

text \<open>The body of the loop of \<open>SetupSpotlights\<close>.\<close>

definition SetupSpotlights_light :: "externs \<Rightarrow> light_t \<Rightarrow> light_t" where
  "SetupSpotlights_light ext entity0 =
     (let entity1 =
            (case targetent entity0 of
               Some target \<Rightarrow>
                 (let targetOrigin = EntDict_VectorForKey ext target ''origin''
                  in entity0\<lparr>spotvec := VectorNormalize (VectorSubtract targetOrigin (origin entity0)),
                              spotlight := True\<rparr>)
             | None \<Rightarrow> entity0)
      in if spotlight entity1 then
           (let angle = (if spotangle entity1 > 0 then spotangle entity1 else 40);
                angle2 = (if spotangle2 entity1 \<le> 0 \<or> spotangle2 entity1 > angle
                          then angle else spotangle2 entity1)
            in entity1\<lparr>spotfalloff := - cos (angle / 2 * pi / 180),
                        spotfalloff2 := - cos (angle2 / 2 * pi / 180)\<rparr>)
         else entity1)"

definition SetupSpotlights :: "externs \<Rightarrow> globals \<Rightarrow> globals" where
  "SetupSpotlights ext g = g\<lparr>all_lights := map (SetupSpotlights_light ext) (all_lights g)\<rparr>"

text \<open>
  light/entities.cc has its own point-in-solid test on the world model, without the
  bounds check and the game switch of common/bsputils.cc; the names of its functions
  carry the suffix \<open>_entities\<close> here.
\<close>

definition Plane_Dist :: "vec3_t \<Rightarrow> dplane_t \<Rightarrow> real" where
  "Plane_Dist point plane =
     (if plane_type plane = 0 then vidx point 0 - dist plane
      else if plane_type plane = 1 then vidx point 1 - dist plane
      else if plane_type plane = 2 then vidx point 2 - dist plane
      else DotProduct point (normal plane) - dist plane)"

fun Light_PointInSolid_r_entities :: "nat \<Rightarrow> mbsp_t \<Rightarrow> int \<Rightarrow> vec3_t \<Rightarrow> (error + bool) option" where
  "Light_PointInSolid_r_entities 0 bsp nodenum point = None"
| "Light_PointInSolid_r_entities (Suc fuel) bsp nodenum point =
     (if nodenum < 0 then
        (case raw_index (dleafs bsp) (-1 - nodenum) of
           Inl e \<Rightarrow> Some (Inl e)
         | Inr lf \<Rightarrow> Some (Inr (contents lf = CONTENTS_SOLID \<or> contents lf = CONTENTS_SKY)))
      else
        (case raw_index (dnodes bsp) nodenum of
           Inl e \<Rightarrow> Some (Inl e)
         | Inr node \<Rightarrow>
             (case raw_index (dplanes bsp) (node_planenum node) of
                Inl e \<Rightarrow> Some (Inl e)
              | Inr plane \<Rightarrow>
                  (let d = Plane_Dist point plane in
                   if d > 0.1 then Light_PointInSolid_r_entities fuel bsp (fst (children node)) point
                   else if d < -0.1 then Light_PointInSolid_r_entities fuel bsp (snd (children node)) point
                   else
                     (case Light_PointInSolid_r_entities fuel bsp (fst (children node)) point of
                        Some (Inr False) \<Rightarrow> Light_PointInSolid_r_entities fuel bsp (snd (children node)) point
                      | r \<Rightarrow> r)))))"

definition Light_PointInSolid_entities :: "nat \<Rightarrow> mbsp_t \<Rightarrow> vec3_t \<Rightarrow> (error + bool) option" where
  "Light_PointInSolid_entities fuel bsp point =
     (case raw_index (dmodels bsp) 0 of
        Inl e \<Rightarrow> Some (Inl e)
      | Inr model \<Rightarrow> Light_PointInSolid_r_entities fuel bsp (headnode model 0) point)"

text \<open>
  The loop of \<open>FixLightOnFace\<close> from \<open>i\<close> with \<open>n\<close> test points to go. The result is the
  new point and whether the warning is printed.
\<close>

fun FixLightOnFace_try :: "nat \<Rightarrow> mbsp_t \<Rightarrow> vec3_t \<Rightarrow> nat \<Rightarrow> nat \<Rightarrow> (error + vec3_t \<times> bool) option" where
  "FixLightOnFace_try fuel bsp point i 0 = Some (Inr (point, True))"
| "FixLightOnFace_try fuel bsp point i (Suc n) =
     (let axis = i div 2;
          add = (i mod 2 \<noteq> 0);
          testpoint = vset point axis (vidx point axis + (if add then 2 else -2))
      in rbind (Light_PointInSolid_entities fuel bsp testpoint)
           (\<lambda>solid. if \<not> solid then Some (Inr (testpoint, False))
                     else FixLightOnFace_try fuel bsp point (Suc i) n))"

definition FixLightOnFace :: "nat \<Rightarrow> mbsp_t \<Rightarrow> vec3_t \<Rightarrow> (error + vec3_t \<times> bool) option" where
  "FixLightOnFace fuel bsp point =
     rbind (Light_PointInSolid_entities fuel bsp point)
       (\<lambda>solid. if \<not> solid then Some (Inr (point, False))
                 else FixLightOnFace_try fuel bsp point 0 6)"

fun FixLightsOnFaces_loop ::
  "nat \<Rightarrow> mbsp_t \<Rightarrow> light_t list \<Rightarrow> string list \<Rightarrow> (error + light_t list \<times> string list) option" where
  "FixLightsOnFaces_loop fuel bsp [] lg = Some (Inr ([], lg))"
| "FixLightsOnFaces_loop fuel bsp (entity # rest) lg =
     (if light entity \<noteq> 0 then
        rbind (FixLightOnFace fuel bsp (origin entity))
          (\<lambda>(tmp, warn).
             rbind (FixLightsOnFaces_loop fuel bsp rest
                      (if warn then lg @ [''WARNING: couldn't nudge light in solid''] else lg))
               (\<lambda>(rest', lg'). Some (Inr (entity\<lparr>origin := tmp\<rparr> # rest', lg'))))
      else
        rbind (FixLightsOnFaces_loop fuel bsp rest lg)
          (\<lambda>(rest', lg'). Some (Inr (entity # rest', lg'))))"

definition FixLightsOnFaces :: "nat \<Rightarrow> mbsp_t \<Rightarrow> globals \<Rightarrow> (error + globals) option" where
  "FixLightsOnFaces fuel bsp g =
     rbind (FixLightsOnFaces_loop fuel bsp (all_lights g) (logged g))
       (\<lambda>(lights', lg'). Some (Inr (g\<lparr>all_lights := lights', logged := lg'\<rparr>)))"

definition SetupLightLeafnums :: "externs \<Rightarrow> mbsp_t \<Rightarrow> globals \<Rightarrow> globals" where
  "SetupLightLeafnums ext bsp g =
     g\<lparr>all_lights :=
         map (\<lambda>entity. entity\<lparr>leaf := Some (Light_PointInLeaf ext bsp (origin entity))\<rparr>) (all_lights g)\<rparr>"

subsection \<open>Surface lights\<close>

text \<open>
  Modelled from the spec: \<open>Q_strcasecmp\<close> is defined in common/cmdlib.cc, outside the
  files read here; the spec has a template's \<open>_surface\<close> "match" the face's texture
  name. It compares without regard to the case of ASCII letters; \<open>Q_strcasecmp_eq\<close> is
  \<open>!Q_strcasecmp(a, b)\<close>.
\<close>

definition Q_tolower :: "char \<Rightarrow> char" where
  "Q_tolower c =
     (if (65::nat) \<le> of_char c \<and> of_char c \<le> (90::nat) then char_of (of_char c + (32::nat)) else c)"

definition Q_strcasecmp_eq :: "string \<Rightarrow> string \<Rightarrow> bool" where
  "Q_strcasecmp_eq a b \<longleftrightarrow> map Q_tolower a = map Q_tolower b"

text \<open>
  \<open>surflight_dump\<close> only writes a copy of each surface light to a file for debugging; the
  file is not modelled.
\<close>

definition CreateSurfaceLight :: "externs \<Rightarrow> vec3_t \<Rightarrow> vec3_t \<Rightarrow> light_t \<Rightarrow> globals \<Rightarrow> globals" where
  "CreateSurfaceLight ext origin_in normal_in surflight_template g =
     (let entity0 = DuplicateEntity surflight_template;
          entity1 = entity0\<lparr>origin := origin_in\<rparr>;
          entity2 = entity1\<lparr>generated := True\<rparr>;
          entity3 = (if atoi ext (ValueForKey surflight_template ''_surface_spotlight'') \<noteq> 0
                     then entity2\<lparr>spotlight := True, spotvec := normal_in\<rparr>
                     else entity2)
      in g\<lparr>all_lights := all_lights g @ [entity3]\<rparr>)"

definition CreateSurfaceLightOnFaceSubdivision ::
  "externs \<Rightarrow> mface_t \<Rightarrow> modelinfo_t \<Rightarrow> light_t \<Rightarrow> mbsp_t \<Rightarrow> int \<Rightarrow> vec3_t list \<Rightarrow> globals
     \<Rightarrow> error + globals" where
  "CreateSurfaceLightOnFaceSubdivision ext face face_modelinfo surflight_template bsp numverts verts g =
     (let midpoint0 = fold (\<lambda>v acc. VectorAdd acc v) verts (0, 0, 0) in
      if numverts = 0 then Inl Not_a_number
      else
        (let midpoint1 = (vidx midpoint0 0 / real_of_int numverts,
                          vidx midpoint0 1 / real_of_int numverts,
                          vidx midpoint0 2 / real_of_int numverts)
         in case raw_index (dplanes bsp) (face_planenum face) of
              Inl e \<Rightarrow> Inl e
            | Inr plane \<Rightarrow>
                (let normal0 = normal plane;
                     normal1 = (if side face \<noteq> 0 then VectorSubtract (0, 0, 0) normal0 else normal0);
                     offset0 = atof ext (ValueForKey surflight_template ''_surface_offset'');
                     offset1 = (if offset0 = 0 then 2 else offset0);
                     midpoint2 = VectorMA midpoint1 offset1 normal1;
                     midpoint3 = VectorAdd midpoint2 (offset face_modelinfo)
                 in Inr (CreateSurfaceLight ext midpoint3 normal1 surflight_template g))))"

definition BoundPoly :: "vec3_t list \<Rightarrow> vec3_t \<times> vec3_t" where
  "BoundPoly verts =
     (let lo = (\<lambda>j. fold (\<lambda>v m. if vidx v j < m then vidx v j else m) verts 9999);
          hi = (\<lambda>j. fold (\<lambda>v m. if vidx v j > m then vidx v j else m) verts (-9999))
      in ((lo 0, lo 1, lo 2), (hi 0, hi 1, hi 2)))"

text \<open>
  The tests at the head of the axis loop of \<open>SubdividePolygon\<close>: the cutting coordinate
  on axis \<open>i\<close>, or \<open>None\<close> where the loop goes on to the next axis.
\<close>

definition SubdividePolygon_axis :: "vec3_t list \<Rightarrow> real \<Rightarrow> nat \<Rightarrow> real option" where
  "SubdividePolygon_axis verts subdivide_size i =
     (let (mins, maxs) = BoundPoly verts;
          m0 = (vidx mins i + vidx maxs i) * 0.5;
          m = subdivide_size * real_of_int \<lfloor>m0 / subdivide_size + 0.5\<rfloor>
      in if vidx maxs i - m < 8 then None
         else if m - vidx mins i < 8 then None
         else Some m)"

text \<open>
  The cut at coordinate \<open>m\<close> of axis \<open>i\<close>: the vertices of the front and of the back
  polygon, in the order the loop over \<open>j\<close> writes them. Vertex and distance number
  \<open>numverts\<close> are those of number 0 ("wrap cases").
\<close>

definition SubdividePolygon_cut :: "vec3_t list \<Rightarrow> nat \<Rightarrow> real \<Rightarrow> vec3_t list \<times> vec3_t list" where
  "SubdividePolygon_cut verts i m =
     (let v = (\<lambda>j. (verts @ [verts ! 0]) ! j);
          d = (\<lambda>j. vidx (v j) i - m);
          clip = (\<lambda>j. let frac = d j / (d j - d (j + 1))
                      in (vidx (v j) 0 + frac * (vidx (v (j + 1)) 0 - vidx (v j) 0),
                          vidx (v j) 1 + frac * (vidx (v (j + 1)) 1 - vidx (v j) 1),
                          vidx (v j) 2 + frac * (vidx (v (j + 1)) 2 - vidx (v j) 2)));
          crossing = (\<lambda>j. if d j = 0 \<or> d (j + 1) = 0 then []
                          else if (d j > 0) \<noteq> (d (j + 1) > 0) then [clip j] else []);
          front = concat (map (\<lambda>j. (if d j \<ge> 0 then [v j] else []) @ crossing j) [0..<length verts]);
          back = concat (map (\<lambda>j. (if d j \<le> 0 then [v j] else []) @ crossing j) [0..<length verts])
      in (front, back))"

text \<open>The loop over the templates at the end of \<open>SubdividePolygon\<close>.\<close>

fun SubdividePolygon_emit ::
  "externs \<Rightarrow> mface_t \<Rightarrow> modelinfo_t \<Rightarrow> mbsp_t \<Rightarrow> int \<Rightarrow> vec3_t list \<Rightarrow> string \<Rightarrow> light_t list
     \<Rightarrow> globals \<Rightarrow> error + globals" where
  "SubdividePolygon_emit ext face face_modelinfo bsp numverts verts texname [] g = Inr g"
| "SubdividePolygon_emit ext face face_modelinfo bsp numverts verts texname (surflight # rest) g =
     (if Q_strcasecmp_eq texname (ValueForKey surflight ''_surface'') then
        (case CreateSurfaceLightOnFaceSubdivision ext face face_modelinfo surflight bsp numverts verts g of
           Inl e \<Rightarrow> Inl e
         | Inr g' \<Rightarrow> SubdividePolygon_emit ext face face_modelinfo bsp numverts verts texname rest g')
      else SubdividePolygon_emit ext face face_modelinfo bsp numverts verts texname rest g)"

text \<open>
  \<open>SubdividePolygon\<close> calls itself on the two halves of a cut; on a polygon with a
  coordinate beyond 9999, where \<open>BoundPoly\<close> does not bound it, a half can be the
  polygon itself and the recursion never ends. The first argument bounds the depth of the
  recursion; \<open>None\<close> is the run that needs more. \<open>front\<close> and \<open>back\<close> are arrays of 64
  vertices.
\<close>

fun SubdividePolygon ::
  "nat \<Rightarrow> externs \<Rightarrow> mface_t \<Rightarrow> modelinfo_t \<Rightarrow> mbsp_t \<Rightarrow> int \<Rightarrow> vec3_t list \<Rightarrow> real \<Rightarrow> globals
     \<Rightarrow> (error + globals) option" where
  "SubdividePolygon 0 ext face face_modelinfo bsp numverts verts subdivide_size g = None"
| "SubdividePolygon (Suc fuel) ext face face_modelinfo bsp numverts verts subdivide_size g =
     (if numverts > 60 then Some (Inl (Fatal ''numverts = %i''))
      else if subdivide_size = 0 then Some (Inl Not_a_number)
      else
        (case List.find (\<lambda>i. SubdividePolygon_axis verts subdivide_size i \<noteq> None) [0, 1, 2] of
           Some i \<Rightarrow>
             (let m = the (SubdividePolygon_axis verts subdivide_size i);
                  (front, back) = SubdividePolygon_cut verts i m
              in if length front > 64 \<or> length back > 64 then Some (Inl Invalid_access)
                 else
                   rbind (SubdividePolygon fuel ext face face_modelinfo bsp (int (length front)) front
                            subdivide_size g)
                     (\<lambda>g'. SubdividePolygon fuel ext face face_modelinfo bsp (int (length back)) back
                              subdivide_size g'))
         | None \<Rightarrow>
             (case Face_TextureName bsp face of
                Inl e \<Rightarrow> Some (Inl e)
              | Inr texname \<Rightarrow>
                  Some (SubdividePolygon_emit ext face face_modelinfo bsp numverts verts texname
                          (surfacelight_templates g) g))))"

text \<open>The vertex of edge \<open>i\<close> of the face, as the loop of \<open>GL_SubdivideSurface\<close> reads it.\<close>

definition GL_SubdivideSurface_vertex :: "mbsp_t \<Rightarrow> mface_t \<Rightarrow> nat \<Rightarrow> error + vec3_t" where
  "GL_SubdivideSurface_vertex bsp face i =
     (if i \<ge> 64 then Inl Invalid_access
      else case raw_index (dsurfedges bsp) (firstedge face + int i) of
        Inl e \<Rightarrow> Inl e
      | Inr edgenum \<Rightarrow>
          (if edgenum \<ge> 0 then
             (case raw_index (dedges bsp) edgenum of
                Inl e \<Rightarrow> Inl e
              | Inr edge \<Rightarrow> raw_index (dvertexes bsp) (fst edge))
           else
             (case raw_index (dedges bsp) (- edgenum) of
                Inl e \<Rightarrow> Inl e
              | Inr edge \<Rightarrow> raw_index (dvertexes bsp) (snd edge))))"

fun GL_SubdivideSurface_verts :: "mbsp_t \<Rightarrow> mface_t \<Rightarrow> nat list \<Rightarrow> error + vec3_t list" where
  "GL_SubdivideSurface_verts bsp face [] = Inr []"
| "GL_SubdivideSurface_verts bsp face (i # rest) =
     (case GL_SubdivideSurface_vertex bsp face i of
        Inl e \<Rightarrow> Inl e
      | Inr v \<Rightarrow>
          (case GL_SubdivideSurface_verts bsp face rest of
             Inl e \<Rightarrow> Inl e
           | Inr vs \<Rightarrow> Inr (v # vs)))"

definition GL_SubdivideSurface ::
  "nat \<Rightarrow> externs \<Rightarrow> settings \<Rightarrow> mface_t \<Rightarrow> modelinfo_t \<Rightarrow> mbsp_t \<Rightarrow> globals \<Rightarrow> (error + globals) option" where
  "GL_SubdivideSurface fuel ext cfg face face_modelinfo bsp g =
     (case GL_SubdivideSurface_verts bsp face [0..<nat (numedges face)] of
        Inl e \<Rightarrow> Some (Inl e)
      | Inr verts \<Rightarrow>
          SubdividePolygon fuel ext face face_modelinfo bsp (numedges face) verts
            (surflight_subdivide cfg) g)"

text \<open>The first loop of \<open>MakeSurfaceLights\<close>: the new lights, the new templates, the log.\<close>

fun MakeSurfaceLights_templates ::
  "light_t list \<Rightarrow> light_t list \<Rightarrow> string list \<Rightarrow> light_t list \<times> light_t list \<times> string list" where
  "MakeSurfaceLights_templates [] templates lg = ([], templates, lg)"
| "MakeSurfaceLights_templates (entity # rest) templates lg =
     (let tex = ValueForKey entity ''_surface'' in
      if tex \<noteq> [] then
        (let (rest', templates', lg') =
               MakeSurfaceLights_templates rest (templates @ [entity])
                 (lg @ [''Creating surface lights for texture from template''])
         in (entity\<lparr>light := 0\<rparr> # rest', templates', lg'))
      else
        (let (rest', templates', lg') = MakeSurfaceLights_templates rest templates lg
         in (entity # rest', templates', lg')))"

text \<open>
  The body of the loop over the mark surfaces of a leaf; \<open>face_visited\<close> is the vector
  of one flag per face.
\<close>

definition MakeSurfaceLights_marksurface ::
  "nat \<Rightarrow> externs \<Rightarrow> settings \<Rightarrow> mbsp_t \<Rightarrow> mleaf_t \<Rightarrow> nat \<Rightarrow> bool list \<times> globals
     \<Rightarrow> (error + bool list \<times> globals) option" where
  "MakeSurfaceLights_marksurface fuel ext cfg bsp lf k st =
     (let (face_visited, g) = st;
          underwater = (contents lf \<noteq> CONTENTS_EMPTY)
      in case raw_index (dmarksurfaces bsp) (firstmarksurface lf + int k) of
           Inl e \<Rightarrow> Some (Inl e)
         | Inr facenum \<Rightarrow>
             (case raw_index (dfaces bsp) facenum of
                Inl e \<Rightarrow> Some (Inl e)
              | Inr surf \<Rightarrow>
                  (case Face_TextureName bsp surf of
                     Inl e \<Rightarrow> Some (Inl e)
                   | Inr texname \<Rightarrow>
                       (case ModelInfoForFace ext bsp facenum of
                          None \<Rightarrow> Some (Inr st)
                        | Some face_modelinfo \<Rightarrow>
                            if take 1 texname = ''*'' \<and> underwater then Some (Inr st)
                            else if face_visited ! nat facenum then Some (Inr st)
                            else
                              rbind (GL_SubdivideSurface fuel ext cfg surf face_modelinfo bsp g)
                                (\<lambda>g'. Some (Inr (face_visited[nat facenum := True], g')))))))"

fun MakeSurfaceLights_marksurfaces ::
  "nat \<Rightarrow> externs \<Rightarrow> settings \<Rightarrow> mbsp_t \<Rightarrow> mleaf_t \<Rightarrow> nat list \<Rightarrow> bool list \<times> globals
     \<Rightarrow> (error + bool list \<times> globals) option" where
  "MakeSurfaceLights_marksurfaces fuel ext cfg bsp lf [] st = Some (Inr st)"
| "MakeSurfaceLights_marksurfaces fuel ext cfg bsp lf (k # ks) st =
     rbind (MakeSurfaceLights_marksurface fuel ext cfg bsp lf k st)
       (\<lambda>st'. MakeSurfaceLights_marksurfaces fuel ext cfg bsp lf ks st')"

fun MakeSurfaceLights_leafs ::
  "nat \<Rightarrow> externs \<Rightarrow> settings \<Rightarrow> mbsp_t \<Rightarrow> mleaf_t list \<Rightarrow> bool list \<times> globals
     \<Rightarrow> (error + bool list \<times> globals) option" where
  "MakeSurfaceLights_leafs fuel ext cfg bsp [] st = Some (Inr st)"
| "MakeSurfaceLights_leafs fuel ext cfg bsp (lf # lfs) st =
     rbind (MakeSurfaceLights_marksurfaces fuel ext cfg bsp lf [0..<nat (nummarksurfaces lf)] st)
       (\<lambda>st'. MakeSurfaceLights_leafs fuel ext cfg bsp lfs st')"

definition MakeSurfaceLights :: "nat \<Rightarrow> externs \<Rightarrow> settings \<Rightarrow> mbsp_t \<Rightarrow> globals \<Rightarrow> (error + globals) option" where
  "MakeSurfaceLights fuel ext cfg bsp g0 =
     (let (lights', templates', lg') =
            MakeSurfaceLights_templates (all_lights g0) (surfacelight_templates g0) (logged g0);
          g1 = g0\<lparr>all_lights := lights', surfacelight_templates := templates', logged := lg'\<rparr>
      in if length (surfacelight_templates g1) = 0 then Some (Inr g1)
         else
           rbind (MakeSurfaceLights_leafs fuel ext cfg bsp (dleafs bsp)
                    (replicate (length (dfaces bsp)) False, g1))
             (\<lambda>(face_visited, g2). Some (Inr g2)))"

subsection \<open>SetupLights\<close>

text \<open>The calls of \<open>SetupLights\<close> after \<open>final_lightcount\<close> is taken.\<close>

definition SetupLights_finish ::
  "nat \<Rightarrow> externs \<Rightarrow> settings \<Rightarrow> mbsp_t \<Rightarrow> globals \<Rightarrow> (error + globals) option" where
  "SetupLights_finish fuel ext cfg bsp g0 =
     (let g1 = MatchTargets g0;
          g2 = SetupSpotlights ext g1
      in case SetupSuns fuel ext cfg g2 of
           None \<Rightarrow> None
         | Some g3 \<Rightarrow>
             (case SetupSkyDome cfg g3 of
                Inl e \<Rightarrow> Some (Inl e)
              | Inr g4 \<Rightarrow>
                  rbind (FixLightsOnFaces fuel bsp g4)
                    (\<lambda>g5. Some (Inr (SetupLightLeafnums ext bsp g5)))))"

definition SetupLights :: "nat \<Rightarrow> externs \<Rightarrow> settings \<Rightarrow> mbsp_t \<Rightarrow> globals \<Rightarrow> (error + globals) option" where
  "SetupLights fuel ext cfg bsp g0 =
     (let g1 = logprint ''SetupLights: %d initial lights'' g0 in
      rbind (MakeSurfaceLights fuel ext cfg bsp g1)
        (\<lambda>g2.
           let g3 = logprint ''SetupLights: %d after surface lights'' g2;
               g4 = JitterEntities ext g3;
               g5 = logprint ''SetupLights: %d after jittering'' g4;
               final_lightcount = length (all_lights g5)
           in rbind (SetupLights_finish fuel ext cfg bsp g5)
                (\<lambda>g6.
                   let g7 = logprint ''Final count: %d lights %d suns in use.'' g6
                   in if final_lightcount = length (all_lights g7) then Some (Inr g7)
                      else Some (Inl Q_assert_failed))))"

subsection \<open>What the surface-light pass adds\<close>

text \<open>
  \<open>appends_surface_lights g g'\<close>: the state \<open>g'\<close> is \<open>g\<close> with lights added at the
  end of \<open>all_lights\<close>, each a copy of a template of \<open>g\<close> but for its origin, its
  spotlight direction and \<open>generated\<close>, which is true.
\<close>

definition appends_surface_lights :: "globals \<Rightarrow> globals \<Rightarrow> bool" where
  "appends_surface_lights g g' \<longleftrightarrow>
     (\<exists>new. g' = g\<lparr>all_lights := all_lights g @ new\<rparr>
        \<and> list_all (\<lambda>c. \<exists>t \<in> set (surfacelight_templates g).
                          c = t\<lparr>origin := origin c, generated := True,
                                spotlight := spotlight c, spotvec := spotvec c\<rparr>) new)"

subsection \<open>Switchable lights\<close>


subsection \<open>Dicts that can be written and read back\<close>

text \<open>
  A string without backslash, double quote, braces and NUL; and an entity dict (its keys
  are distinct, as those of a dict are) whose keys and values are such strings, the keys
  at most 31 and the values at most 1023 characters long.
\<close>

definition plain_string :: "string \<Rightarrow> bool" where
  "plain_string s \<longleftrightarrow>
     list_all (\<lambda>c. c \<noteq> CHR 0x5C \<and> c \<noteq> CHR 0x22 \<and> c \<noteq> CHR ''{'' \<and> c \<noteq> CHR ''}''
                  \<and> c \<noteq> CHR 0x00) s"

definition writable_dict :: "entdict_t \<Rightarrow> bool" where
  "writable_dict ent \<longleftrightarrow>
     distinct (map fst ent)
     \<and> list_all (\<lambda>epair. plain_string (fst epair) \<and> length (fst epair) \<le> 31
                       \<and> plain_string (snd epair) \<and> length (snd epair) \<le> 1023) ent"

section \<open>A small world\<close>

text \<open>
  One node on the plane \<open>x = 0\<close> with an empty leaf in front and a solid leaf behind, and
  one triangular face with the texture \<open>lava1\<close> on that plane, marked in the empty leaf.
\<close>

definition example_bsp :: mbsp_t where
  "example_bsp =
     \<lparr>game_id = GAME_QUAKE,
      dmodels = [\<lparr>mins = (-100, -100, -100), maxs = (100, 100, 100), headnode = (\<lambda>h. 0)\<rparr>],
      dnodes = [\<lparr>node_planenum = 0, children = (-2, -1), firstface = 0, numfaces = 1\<rparr>],
      dleafs = [\<lparr>contents = CONTENTS_SOLID, firstmarksurface = 0, nummarksurfaces = 0\<rparr>,
                \<lparr>contents = CONTENTS_EMPTY, firstmarksurface = 0, nummarksurfaces = 1\<rparr>],
      dplanes = [\<lparr>normal = (1, 0, 0), dist = 0, plane_type = 0\<rparr>],
      dfaces = [\<lparr>face_planenum = 0, side = 0, firstedge = 0, numedges = 3, face_texinfo = 0\<rparr>],
      texinfo = [\<lparr>miptex = 0, flags = 0, texture = []\<rparr>],
      dtex_textures = [\<lparr>miptex_name = ''lava1''\<rparr>],
      drgbatexdata = [],
      dvertexes = [(0, 0, 0), (0, 4, 0), (0, 0, 4)],
      dedges = [(0, 0), (0, 1), (1, 2), (2, 0)],
      dsurfedges = [1, 2, 3],
      dmarksurfaces = [0]\<rparr>"

definition example_ext :: externs where
  "example_ext =
     \<lparr>stof = (\<lambda>s. None),
      atoi = (\<lambda>s. 0),
      atof = (\<lambda>s. 0),
      sscanf_vec3 = (\<lambda>s. (0, 0, 0)),
      Random = (\<lambda>n. real (n mod 3) / 2),
      ModelInfoForFace = (\<lambda>bsp facenum. Some \<lparr>offset = (0, 0, 0)\<rparr>),
      Light_PointInLeaf = (\<lambda>bsp point. 1)\<rparr>"

text \<open>The spec's sky-dome scenario: \<open>_sunlight2\<close> 100, sixteen sun samples, no \<open>_sunlight3\<close>.\<close>

definition example_cfg :: settings where
  "example_cfg =
     \<lparr>sunsamples = 16, sun_deviance = 0,
      sunlight = 0, sunlight_color = (255, 255, 255), sunvec = (0, 0, -1), sunlight_dirt = 0,
      sun2 = 0, sun2_color = (255, 255, 255), sun2vec = (0, 0, -1),
      sunlight2 = 100, sunlight2_color = (255, 255, 255), sunlight2_dirt = 0,
      sunlight3 = 0, sunlight3_color = (255, 255, 255),
      global_anglescale = 1 / 2, globalDirt = False, addminlight = False,
      surflight_subdivide = 128\<rparr>"

text \<open>A light as \<open>LoadEntities\<close> leaves it for the entity \<open>{ "classname" "light" }\<close> at 8 0 0.\<close>

definition example_light :: light_t where
  "example_light =
     \<lparr>epairs = [(''classname'', ''light''), (''origin'', ''8 0 0'')],
      targetent = None,
      origin = (8, 0, 0), light = 300, atten = 1, anglescale = 1 / 2, formula = 0,
      deviance = 0, samples = 1, style = 0,
      spotlight = False, spotvec = (0, 0, 0), spotangle = 0, spotangle2 = 0,
      spotfalloff = 0, spotfalloff2 = 0, generated = False, leaf = None\<rparr>"

text \<open>The spec's jitter scenario: one light with \<open>_samples\<close> 4 and \<open>_deviance\<close> 8.\<close>

definition example_jitter_light :: light_t where
  "example_jitter_light = example_light\<lparr>samples := 4, deviance := 8\<rparr>"

definition example_jitter_globals :: globals where
  "example_jitter_globals = initial_globals\<lparr>all_lights := [example_jitter_light]\<rparr>"

text \<open>The same settings without a sky dome.\<close>

definition example_dark_cfg :: settings where
  "example_dark_cfg = example_cfg\<lparr>sunlight2 := 0\<rparr>"

text \<open>A template of surface lights for the texture of the face, and the state with that one light.\<close>

definition example_template :: light_t where
  "example_template = example_light\<lparr>epairs := [(''classname'', ''light''), (''_surface'', ''lava1'')]\<rparr>"

definition example_surface_globals :: globals where
  "example_surface_globals = initial_globals\<lparr>all_lights := [example_template]\<rparr>"

definition example_face :: mface_t where
  "example_face = \<lparr>face_planenum = 0, side = 0, firstedge = 0, numedges = 3, face_texinfo = 0\<rparr>"

definition example_triangle :: "vec3_t list" where
  "example_triangle = [(0, 0, 0), (0, 4, 0), (0, 0, 4)]"

definition example_square :: "vec3_t list" where
  "example_square = [(0, 0, 0), (0, 32, 0), (0, 32, 32), (0, 0, 32)]"

definition example_modelinfo :: modelinfo_t where
  "example_modelinfo = \<lparr>offset = (0, 0, 0)\<rparr>"

text \<open>
  The state after the surface-light pass on that state: the template with its light at 0
  and one surface light on the face, two units off its centre.
\<close>

definition example_surface_result :: globals where
  "example_surface_result =
     example_surface_globals
       \<lparr>all_lights := [example_template\<lparr>light := 0\<rparr>,
                       example_template\<lparr>origin := (2, 4 / 3, 4 / 3), generated := True\<rparr>],
        surfacelight_templates := [example_template],
        logged := [''Creating surface lights for texture from template'']\<rparr>"

text \<open>
  An entity lump with the world and two lights switched by the same button, and one with
  33 lights that each have a target name of their own.
\<close>

definition example_switched_lights :: "entdict_t list" where
  "example_switched_lights =
     [[(''classname'', ''worldspawn'')],
      [(''classname'', ''light''), (''targetname'', ''button1''), (''origin'', ''0 0 0'')],
      [(''classname'', ''light''), (''targetname'', ''button1''), (''origin'', ''64 0 0'')]]"


section \<open>Properties of the BSP queries\<close>

subsection \<open>Texinfo lookups\<close>

text \<open>
  C10. For a texinfo index that is negative or not below the number of texinfos,
  \<open>BSP_GetTexinfo\<close> and \<open>Face_Texinfo\<close> return the null pointer and
  \<open>Face_TextureName\<close> of a face with that index returns the empty string, where the
  node, plane, face and vertex accessors fail their assertion and the leaf accessor stops
  with a fatal error on such an index.
\<close>

theorem texinfo_out_of_range_is_null:
  "(ti < 0 \<or> ti \<ge> int (length (texinfo bsp)) \<longrightarrow>
      BSP_GetTexinfo bsp ti = None
    \<and> (face_texinfo face = ti \<longrightarrow>
         Face_Texinfo bsp face = None \<and> Face_TextureName bsp face = Inr []))
   \<and> (i < 0 \<or> i \<ge> int (length (dnodes bsp)) \<longrightarrow> BSP_GetNode bsp i = Inl Q_assert_failed)
   \<and> (i < 0 \<or> i \<ge> int (length (dplanes bsp)) \<longrightarrow> BSP_GetPlane bsp i = Inl Q_assert_failed)
   \<and> (i < 0 \<or> i \<ge> int (length (dfaces bsp)) \<longrightarrow> BSP_GetFace bsp i = Inl Q_assert_failed)
   \<and> (i < 0 \<or> i \<ge> int (length (dvertexes bsp)) \<longrightarrow> Vertex_GetPos bsp i = Inl Q_assert_failed)
   \<and> (i < 0 \<or> i \<ge> int (length (dleafs bsp)) \<longrightarrow> (\<exists>msg. BSP_GetLeaf bsp i = Inl (Fatal msg)))"
  by (auto simp: BSP_GetTexinfo_def Face_Texinfo_def Face_TextureName_def Face_Miptex_def
      Face_RgbaMiptex_def BSP_GetNode_def BSP_GetPlane_def BSP_GetFace_def Vertex_GetPos_def
      BSP_GetLeaf_def)

theorem texinfo_out_of_range_is_null_witness:
  "BSP_GetTexinfo example_bsp 1 = None
   \<and> Face_Texinfo example_bsp ((dfaces example_bsp ! 0)\<lparr>face_texinfo := 1\<rparr>) = None
   \<and> Face_TextureName example_bsp ((dfaces example_bsp ! 0)\<lparr>face_texinfo := 1\<rparr>) = Inr []
   \<and> Face_TextureName example_bsp (dfaces example_bsp ! 0) = Inr ''lava1''
   \<and> BSP_GetNode example_bsp (-1) = Inl Q_assert_failed
   \<and> BSP_GetPlane example_bsp (-1) = Inl Q_assert_failed
   \<and> BSP_GetFace example_bsp (-1) = Inl Q_assert_failed
   \<and> Vertex_GetPos example_bsp (-1) = Inl Q_assert_failed
   \<and> (\<exists>msg. BSP_GetLeaf example_bsp (-1) = Inl (Fatal msg))"
proof -
  have name: "Face_TextureName example_bsp (dfaces example_bsp ! 0) = Inr ''lava1''"
    by (simp add: example_bsp_def Face_TextureName_def Face_Miptex_def Face_Texinfo_def
        raw_index_def in_range_def c_str_def)
  show ?thesis
    using texinfo_out_of_range_is_null
      [of 1 example_bsp "(dfaces example_bsp ! 0)\<lparr>face_texinfo := 1\<rparr>" "-1"] name
    by (simp add: example_bsp_def)
qed

text \<open>
  The leaf accessor is not among the accessors that fail an assertion: on the index -1
  \<open>BSP_GetLeaf\<close> stops with the fatal error of its own bounds test.
\<close>

theorem BSP_GetLeaf_out_of_range_is_fatal:
  "BSP_GetLeaf example_bsp (-1) = Inl (Fatal ''Corrupt BSP: leaf is out of bounds'')
   \<and> BSP_GetLeaf example_bsp (-1) \<noteq> Inl Q_assert_failed"
  by (simp add: BSP_GetLeaf_def)

subsection \<open>Point in solid\<close>

lemma Light_PointInSolid_r_more_fuel:
  "Light_PointInSolid_r n bsp nodenum point = Some r
   \<Longrightarrow> Light_PointInSolid_r (n + k) bsp nodenum point = Some r"
proof (induction n arbitrary: nodenum r)
  case 0
  then show ?case by simp
next
  case (Suc n)
  show ?case
  proof (cases "nodenum < 0")
    case True
    with Suc.prems show ?thesis by (simp split: sum.splits)
  next
    case nonneg: False
    show ?thesis
    proof (cases "raw_index (dnodes bsp) nodenum")
      case (Inl e)
      with Suc.prems nonneg show ?thesis by simp
    next
      case (Inr node)
      show ?thesis
      proof (cases "raw_index (dplanes bsp) (node_planenum node)")
        case (Inl e)
        with Suc.prems nonneg Inr show ?thesis by simp
      next
        case pl: (Inr plane)
        let ?d = "distance_to_fast plane point"
        let ?f = "fst (children node)" and ?b = "snd (children node)"
        consider (ahead) "?d > 0.1" | (behind) "\<not> ?d > 0.1" "?d < -0.1"
          | (near) "\<not> ?d > 0.1" "\<not> ?d < -0.1"
          by blast
        then show ?thesis
        proof cases
          case ahead
          with Suc.prems nonneg Inr pl Suc.IH [of ?f r] show ?thesis by simp
        next
          case behind
          with Suc.prems nonneg Inr pl Suc.IH [of ?b r] show ?thesis by simp
        next
          case near
          from Suc.prems nonneg Inr pl near
          have step: "(case Light_PointInSolid_r n bsp ?f point of
                         Some (Inr False) \<Rightarrow> Light_PointInSolid_r n bsp ?b point
                       | r \<Rightarrow> r) = Some r"
            by simp
          then obtain rf where rf: "Light_PointInSolid_r n bsp ?f point = Some rf"
            by (cases "Light_PointInSolid_r n bsp ?f point") auto
          have rf': "Light_PointInSolid_r (n + k) bsp ?f point = Some rf"
            using Suc.IH [OF rf] .
          show ?thesis
          proof (cases "rf = Inr False")
            case True
            with step rf have "Light_PointInSolid_r n bsp ?b point = Some r" by simp
            then have "Light_PointInSolid_r (n + k) bsp ?b point = Some r"
              using Suc.IH by blast
            with True rf' nonneg Inr pl near show ?thesis by simp
          next
            case False
            with step rf have "r = rf"
              by (cases rf) (auto split: bool.splits)
            with False rf' nonneg Inr pl near show ?thesis
              by (cases rf) (auto split: bool.splits)
          qed
        qed
      qed
    qed
  qed
qed

text \<open>
  C9. \<open>Light_PointInSolid\<close> is false for a point outside the bounds of the model and
  otherwise the descent from head node 0 of the model. At a leaf the descent returns
  \<open>contents & SOLID\<close> for Quake 2 and \<open>contents == SOLID || contents == SKY\<close> for the
  other games. At a node with the distance \<open>d\<close> of the point to the node's plane it is the
  descent into the front child where \<open>d > 0.1\<close>, into the back child where \<open>d < -0.1\<close>,
  and otherwise the disjunction of the two.
\<close>

theorem Light_PointInSolid_descent:
  "(outside_bounds model point \<longrightarrow> Light_PointInSolid fuel bsp model point = Some (Inr False))
   \<and> (\<not> outside_bounds model point \<longrightarrow>
        Light_PointInSolid fuel bsp model point
          = Light_PointInSolid_r fuel bsp (headnode model 0) point)
   \<and> (nodenum < 0 \<and> in_range (-1 - nodenum) (dleafs bsp) \<longrightarrow>
        Light_PointInSolid_r (Suc n) bsp nodenum point
          = Some (Inr (if game_id bsp = GAME_QUAKE_II
                       then contents (dleafs bsp ! nat (-1 - nodenum)) AND Q2_CONTENTS_SOLID \<noteq> 0
                       else contents (dleafs bsp ! nat (-1 - nodenum)) = CONTENTS_SOLID
                            \<or> contents (dleafs bsp ! nat (-1 - nodenum)) = CONTENTS_SKY)))
   \<and> (0 \<le> nodenum \<and> in_range nodenum (dnodes bsp)
        \<and> in_range (node_planenum (dnodes bsp ! nat nodenum)) (dplanes bsp) \<longrightarrow>
        (let node = dnodes bsp ! nat nodenum;
             d = distance_to_fast (dplanes bsp ! nat (node_planenum node)) point;
             front = Light_PointInSolid_r n bsp (fst (children node)) point;
             back = Light_PointInSolid_r n bsp (snd (children node)) point
         in (d > 0.1 \<longrightarrow> Light_PointInSolid_r (Suc n) bsp nodenum point = front)
          \<and> (d < -0.1 \<longrightarrow> Light_PointInSolid_r (Suc n) bsp nodenum point = back)
          \<and> (- 0.1 \<le> d \<and> d \<le> 0.1 \<longrightarrow>
               (\<forall>x y. front = Some (Inr x) \<and> back = Some (Inr y) \<longrightarrow>
                  Light_PointInSolid_r (Suc n) bsp nodenum point = Some (Inr (x \<or> y))))))"
proof -
  have a: "outside_bounds model point \<longrightarrow> Light_PointInSolid fuel bsp model point = Some (Inr False)"
    by (simp add: Light_PointInSolid_def)
  have b: "\<not> outside_bounds model point \<longrightarrow>
        Light_PointInSolid fuel bsp model point
          = Light_PointInSolid_r fuel bsp (headnode model 0) point"
    by (simp add: Light_PointInSolid_def)
  have c: "nodenum < 0 \<and> in_range (-1 - nodenum) (dleafs bsp) \<longrightarrow>
        Light_PointInSolid_r (Suc n) bsp nodenum point
          = Some (Inr (if game_id bsp = GAME_QUAKE_II
                       then contents (dleafs bsp ! nat (-1 - nodenum)) AND Q2_CONTENTS_SOLID \<noteq> 0
                       else contents (dleafs bsp ! nat (-1 - nodenum)) = CONTENTS_SOLID
                            \<or> contents (dleafs bsp ! nat (-1 - nodenum)) = CONTENTS_SKY))"
    by (simp add: BSP_GetLeafFromNodeNum_def BSP_GetLeaf_def in_range_def)
  have d: "0 \<le> nodenum \<and> in_range nodenum (dnodes bsp)
        \<and> in_range (node_planenum (dnodes bsp ! nat nodenum)) (dplanes bsp) \<longrightarrow>
        (let node = dnodes bsp ! nat nodenum;
             d = distance_to_fast (dplanes bsp ! nat (node_planenum node)) point;
             front = Light_PointInSolid_r n bsp (fst (children node)) point;
             back = Light_PointInSolid_r n bsp (snd (children node)) point
         in (d > 0.1 \<longrightarrow> Light_PointInSolid_r (Suc n) bsp nodenum point = front)
          \<and> (d < -0.1 \<longrightarrow> Light_PointInSolid_r (Suc n) bsp nodenum point = back)
          \<and> (- 0.1 \<le> d \<and> d \<le> 0.1 \<longrightarrow>
               (\<forall>x y. front = Some (Inr x) \<and> back = Some (Inr y) \<longrightarrow>
                  Light_PointInSolid_r (Suc n) bsp nodenum point = Some (Inr (x \<or> y)))))"
    by (auto simp: raw_index_def Let_def split: bool.splits)
  from a b c d show ?thesis by blast
qed

theorem Light_PointInSolid_descent_witness:
  "Light_PointInSolid 2 example_bsp (dmodels example_bsp ! 0) (200, 0, 0) = Some (Inr False)
   \<and> Light_PointInSolid 2 example_bsp (dmodels example_bsp ! 0) (5, 0, 0) = Some (Inr False)
   \<and> Light_PointInSolid 2 example_bsp (dmodels example_bsp ! 0) (-5, 0, 0) = Some (Inr True)
   \<and> Light_PointInSolid 2 example_bsp (dmodels example_bsp ! 0) (0, 0, 0) = Some (Inr True)"
proof -
  let ?m = "dmodels example_bsp ! 0"
  let ?R = "\<lambda>k nodenum p. Light_PointInSolid_r k example_bsp nodenum p"
  note [simp del] = Light_PointInSolid_r.simps
  have m: "?m = \<lparr>mins = (-100, -100, -100), maxs = (100, 100, 100), headnode = (\<lambda>h. 0)\<rparr>"
    by (simp add: example_bsp_def)
  have out: "outside_bounds ?m (200, 0, 0)"
    and in1: "\<not> outside_bounds ?m (5, 0, 0)"
    and in2: "\<not> outside_bounds ?m (-5, 0, 0)"
    and in3: "\<not> outside_bounds ?m (0, 0, 0)"
    by (simp_all add: m outside_bounds_def)
  have hn: "headnode ?m 0 = 0"
    by (simp add: m)
  have rng: "(0::int) \<le> 0 \<and> in_range 0 (dnodes example_bsp)
      \<and> in_range (node_planenum (dnodes example_bsp ! nat 0)) (dplanes example_bsp)"
    by (simp add: example_bsp_def in_range_def)
  have ch: "fst (children (dnodes example_bsp ! 0)) = -2"
    "snd (children (dnodes example_bsp ! 0)) = -1"
    by (simp_all add: example_bsp_def)
  have dist: "distance_to_fast (dplanes example_bsp ! nat (node_planenum (dnodes example_bsp ! 0))) p
      = vidx p 0" for p
    by (simp add: example_bsp_def distance_to_fast_def)
  have empty_leaf: "?R (Suc 0) (-2) p = Some (Inr False)" for p
    using Light_PointInSolid_descent [of ?m p 0 example_bsp "-2" 0]
    by (simp add: example_bsp_def in_range_def CONTENTS_SOLID_def CONTENTS_SKY_def CONTENTS_EMPTY_def)
  have solid_leaf: "?R (Suc 0) (-1) p = Some (Inr True)" for p
    using Light_PointInSolid_descent [of ?m p 0 example_bsp "-1" 0]
    by (simp add: example_bsp_def in_range_def CONTENTS_SOLID_def CONTENTS_SKY_def CONTENTS_EMPTY_def)
  have two: "(2::nat) = Suc (Suc 0)"
    by simp
  have "Light_PointInSolid 2 example_bsp ?m (200, 0, 0) = Some (Inr False)"
    using Light_PointInSolid_descent [of ?m "(200, 0, 0)" 2 example_bsp 0 1] out by blast
  moreover have "Light_PointInSolid 2 example_bsp ?m (5, 0, 0) = Some (Inr False)"
  proof -
    from Light_PointInSolid_descent [of ?m "(5, 0, 0)" 2 example_bsp 0 "Suc 0"] in1 rng
    have "Light_PointInSolid 2 example_bsp ?m (5, 0, 0) = ?R 2 (headnode ?m 0) (5, 0, 0)"
      and "?R (Suc (Suc 0)) 0 (5, 0, 0) = ?R (Suc 0) (-2) (5, 0, 0)"
      by (simp_all add: Let_def dist ch)
    then show ?thesis by (simp add: hn two empty_leaf)
  qed
  moreover have "Light_PointInSolid 2 example_bsp ?m (-5, 0, 0) = Some (Inr True)"
  proof -
    from Light_PointInSolid_descent [of ?m "(-5, 0, 0)" 2 example_bsp 0 "Suc 0"] in2 rng
    have "Light_PointInSolid 2 example_bsp ?m (-5, 0, 0) = ?R 2 (headnode ?m 0) (-5, 0, 0)"
      and "?R (Suc (Suc 0)) 0 (-5, 0, 0) = ?R (Suc 0) (-1) (-5, 0, 0)"
      by (simp_all add: Let_def dist ch)
    then show ?thesis by (simp add: hn two solid_leaf)
  qed
  moreover have "Light_PointInSolid 2 example_bsp ?m (0, 0, 0) = Some (Inr True)"
  proof -
    from Light_PointInSolid_descent [of ?m "(0, 0, 0)" 2 example_bsp 0 "Suc 0"] in3 rng
    have A: "Light_PointInSolid 2 example_bsp ?m (0, 0, 0) = ?R 2 (headnode ?m 0) (0, 0, 0)"
      and B: "\<forall>x y. ?R (Suc 0) (-2) (0, 0, 0) = Some (Inr x) \<and> ?R (Suc 0) (-1) (0, 0, 0) = Some (Inr y)
             \<longrightarrow> ?R (Suc (Suc 0)) 0 (0, 0, 0) = Some (Inr (x \<or> y))"
      by (simp_all add: Let_def dist ch)
    from B empty_leaf [of "(0, 0, 0)"] solid_leaf [of "(0, 0, 0)"]
    have "?R (Suc (Suc 0)) 0 (0, 0, 0) = Some (Inr (False \<or> True))"
      by blast
    with A show ?thesis by (simp add: hn two)
  qed
  ultimately show ?thesis by blast
qed

section \<open>Properties of the light model\<close>

subsection \<open>CheckEntityFields\<close>

lemma CheckEntityFields_result:
  assumes ok: "CheckEntityFields cfg entity g = Inr (entity', g')"
  shows "warned_once g \<longrightarrow> g' = g"
    and "getFormula entity < LF_LINEAR \<or> getFormula entity \<ge> LF_COUNT
         \<longrightarrow> formula entity' = real_of_int LF_LINEAR"
    and "deviance entity' \<ge> 0" and "intValue (samples entity') \<ge> 1"
    and "0 \<le> intValue (style entity') \<and> intValue (style entity') \<le> 254"
proof -
  define e1 where "e1 = (if light entity = 0 then entity\<lparr>light := DEFAULTLIGHTLEVEL\<rparr> else entity)"
  define e2 where "e2 = (if atten e1 \<le> 0 then e1\<lparr>atten := 1\<rparr> else e1)"
  define e3 where "e3 = (if anglescale e2 < 0 \<or> anglescale e2 > 1
                     then e2\<lparr>anglescale := global_anglescale cfg\<rparr> else e2)"
  define unknown where "unknown = (getFormula e3 < LF_LINEAR \<or> getFormula e3 \<ge> LF_COUNT)"
  define g1 where "g1 = (if unknown \<and> \<not> warned_once g
                then logprint ''WARNING: unknown formula number in delay field''
                       (g\<lparr>warned_once := True\<rparr>)
                else g)"
  define e4 where "e4 = (if unknown then e3\<lparr>formula := real_of_int LF_LINEAR\<rparr> else e3)"
  define e5 where "e5 = (if deviance e4 > 0 \<and> intValue (samples e4) = 0
                     then e4\<lparr>samples := 16\<rparr> else e4)"
  define e6 where "e6 = (if deviance e5 \<le> 0 \<or> intValue (samples e5) \<le> 1
                     then e5\<lparr>deviance := 0, samples := 1\<rparr> else e5)"
  define e7 where "e7 = (if getFormula e6 = LF_INVERSE
                        \<or> getFormula e6 = LF_INVERSE2
                        \<or> getFormula e6 = LF_INFINITE
                        \<or> (getFormula e6 = LF_LOCALMIN \<and> addminlight cfg)
                        \<or> getFormula e6 = LF_INVERSE2A
                     then e6\<lparr>light := light e6 / real_of_int (intValue (samples e6))\<rparr>
                     else e6)"
  have "CheckEntityFields cfg entity g =
           (if intValue (style e7) < 0 \<or> intValue (style e7) > 254
            then Inl (Fatal ''Bad light style (must be 0-254)'')
            else Inr (e7, g1))"
    unfolding CheckEntityFields_def Let_def e7_def e6_def e5_def e4_def g1_def unknown_def
      e3_def e2_def e1_def ..
  with ok have res: "entity' = e7" "g' = g1"
    and st: "0 \<le> intValue (style e7) \<and> intValue (style e7) \<le> 254"
    by (simp_all split: if_split_asm)
  show "warned_once g \<longrightarrow> g' = g"
    by (simp add: res g1_def)
  have "formula e7 = formula e4"
    by (simp add: e7_def e6_def e5_def)
  moreover have "unknown \<longleftrightarrow> getFormula entity < LF_LINEAR \<or> getFormula entity \<ge> LF_COUNT"
    by (simp add: unknown_def getFormula_def e3_def e2_def e1_def)
  ultimately show "getFormula entity < LF_LINEAR \<or> getFormula entity \<ge> LF_COUNT
         \<longrightarrow> formula entity' = real_of_int LF_LINEAR"
    by (simp add: res e4_def)
  have "deviance e6 \<ge> 0" "intValue (samples e6) \<ge> 1"
    by (simp_all add: e6_def intValue_def)
  then show "deviance entity' \<ge> 0" "intValue (samples entity') \<ge> 1"
    by (simp_all add: res e7_def)
  show "0 \<le> intValue (style entity') \<and> intValue (style entity') \<le> 254"
    using st by (simp add: res)
qed

text \<open>
  C3. A light whose formula is outside the enum range gets the formula LINEAR, as the
  lemma above shows for every call. The warning of the first such light is not printed:
  \<open>warned_once\<close> starts as true, so the first call on the light with \<open>delay\<close> 7 leaves
  the state at program start, with its empty log, as it is.
\<close>

theorem CheckEntityFields_first_unknown_formula:
  "getFormula (example_light\<lparr>formula := 7\<rparr>) \<ge> LF_COUNT
   \<and> warned_once initial_globals
   \<and> CheckEntityFields example_cfg (example_light\<lparr>formula := 7\<rparr>) initial_globals
       = Inr (example_light, initial_globals)
   \<and> logged initial_globals = []"
  by (simp add: CheckEntityFields_def example_light_def example_cfg_def initial_globals_def
      getFormula_def intValue_def LF_COUNT_def LF_LINEAR_def LF_INVERSE_def LF_INVERSE2_def
      LF_INFINITE_def LF_LOCALMIN_def LF_INVERSE2A_def)

subsection \<open>Jitter\<close>

lemma JitterEntity_copies_appends:
  "\<exists>new. all_lights (JitterEntity_copies ext entity n g) = all_lights g @ new
      \<and> length new = n
      \<and> (\<forall>c \<in> set new. c = entity\<lparr>generated := True, origin := origin c\<rparr>
            \<and> ((\<forall>m. 0 \<le> Random ext m \<and> Random ext m \<le> 1) \<and> 0 \<le> deviance entity \<longrightarrow>
                 (\<forall>k < 3. \<bar>vidx (origin c) k - vidx (origin entity) k\<bar> \<le> deviance entity)))"
proof (induction n arbitrary: g)
  case 0
  then show ?case by simp
next
  case (Suc n)
  define c0 where "c0 = random_calls g"
  define cp where "cp = entity\<lparr>generated := True,
      origin := (vidx (origin entity) 0 + (Random ext c0 * 2 - 1) * deviance entity,
                 vidx (origin entity) 1 + (Random ext (c0 + 1) * 2 - 1) * deviance entity,
                 vidx (origin entity) 2 + (Random ext (c0 + 2) * 2 - 1) * deviance entity)\<rparr>"
  define g1 where "g1 = g\<lparr>all_lights := all_lights g @ [cp], random_calls := c0 + 3\<rparr>"
  have step: "JitterEntity_copies ext entity (Suc n) g = JitterEntity_copies ext entity n g1"
    by (simp add: g1_def cp_def c0_def DuplicateEntity_def Let_def)
  from Suc.IH [of g1] obtain new where new:
    "all_lights (JitterEntity_copies ext entity n g1) = all_lights g1 @ new" "length new = n"
    "\<forall>c \<in> set new. c = entity\<lparr>generated := True, origin := origin c\<rparr>
            \<and> ((\<forall>m. 0 \<le> Random ext m \<and> Random ext m \<le> 1) \<and> 0 \<le> deviance entity \<longrightarrow>
                 (\<forall>k < 3. \<bar>vidx (origin c) k - vidx (origin entity) k\<bar> \<le> deviance entity))"
    by blast
  have bound: "\<bar>(r * 2 - 1) * d\<bar> \<le> d" if "0 \<le> r" "r \<le> 1" "0 \<le> d" for r d :: real
  proof -
    have "\<bar>r * 2 - 1\<bar> \<le> 1" using that by (simp add: abs_le_iff)
    then have "\<bar>r * 2 - 1\<bar> * d \<le> 1 * d" using that(3) by (rule mult_right_mono)
    then show ?thesis using that(3) by (simp add: abs_mult)
  qed
  have cp_ok: "cp = entity\<lparr>generated := True, origin := origin cp\<rparr>"
    by (simp add: cp_def)
  have cp_near: "\<bar>vidx (origin cp) k - vidx (origin entity) k\<bar> \<le> deviance entity"
    if "\<forall>m. 0 \<le> Random ext m \<and> Random ext m \<le> 1" "0 \<le> deviance entity" "k < 3" for k
  proof -
    from that(3) consider "k = 0" | "k = 1" | "k = 2" by linarith
    then show ?thesis
      using that(1,2) bound [of "Random ext c0" "deviance entity"]
        bound [of "Random ext (c0 + 1)" "deviance entity"]
        bound [of "Random ext (c0 + 2)" "deviance entity"]
      by cases (simp_all add: cp_def)
  qed
  have "all_lights (JitterEntity_copies ext entity (Suc n) g) = all_lights g @ (cp # new)"
    using step new(1) by (simp add: g1_def)
  moreover have "length (cp # new) = Suc n"
    using new(2) by simp
  moreover have "\<forall>c \<in> set (cp # new). c = entity\<lparr>generated := True, origin := origin c\<rparr>
            \<and> ((\<forall>m. 0 \<le> Random ext m \<and> Random ext m \<le> 1) \<and> 0 \<le> deviance entity \<longrightarrow>
                 (\<forall>k < 3. \<bar>vidx (origin c) k - vidx (origin entity) k\<bar> \<le> deviance entity))"
    using new(3) cp_ok cp_near by auto
  ultimately show ?case by blast
qed

lemma JitterEntities_from_appends:
  assumes "i + n \<le> length (all_lights g)"
  shows "\<exists>blocks. all_lights (JitterEntities_from ext i n g) = all_lights g @ concat blocks
      \<and> length blocks = n
      \<and> (\<forall>k < n. length (blocks ! k) = nat (intValue (samples (all_lights g ! (i + k))) - 1)
            \<and> (\<forall>c \<in> set (blocks ! k).
                  c = (all_lights g ! (i + k))\<lparr>generated := True, origin := origin c\<rparr>
                  \<and> ((\<forall>m. 0 \<le> Random ext m \<and> Random ext m \<le> 1)
                       \<and> 0 \<le> deviance (all_lights g ! (i + k)) \<longrightarrow>
                     (\<forall>d < 3. \<bar>vidx (origin c) d - vidx (origin (all_lights g ! (i + k))) d\<bar>
                        \<le> deviance (all_lights g ! (i + k))))))"
  using assms
proof (induction n arbitrary: i g)
  case 0
  then show ?case by simp
next
  case (Suc n)
  let ?e = "all_lights g ! i"
  define g1 where "g1 = JitterEntity ext ?e g"
  from JitterEntity_copies_appends [of ext ?e "nat (intValue (samples ?e) - 1)" g]
  obtain new where new: "all_lights g1 = all_lights g @ new"
    "length new = nat (intValue (samples ?e) - 1)"
    "\<forall>c \<in> set new. c = ?e\<lparr>generated := True, origin := origin c\<rparr>
            \<and> ((\<forall>m. 0 \<le> Random ext m \<and> Random ext m \<le> 1) \<and> 0 \<le> deviance ?e \<longrightarrow>
                 (\<forall>k < 3. \<bar>vidx (origin c) k - vidx (origin ?e) k\<bar> \<le> deviance ?e))"
    unfolding g1_def JitterEntity_def by blast
  have len: "Suc i + n \<le> length (all_lights g1)"
    using Suc.prems new(1) by simp
  have same: "all_lights g1 ! (Suc i + k) = all_lights g ! (Suc i + k)" if "k < n" for k
    using that Suc.prems new(1) by (simp add: nth_append)
  from Suc.IH [OF len] obtain blocks where blocks:
    "all_lights (JitterEntities_from ext (Suc i) n g1) = all_lights g1 @ concat blocks"
    "length blocks = n"
    "\<forall>k < n. length (blocks ! k) = nat (intValue (samples (all_lights g1 ! (Suc i + k))) - 1)
            \<and> (\<forall>c \<in> set (blocks ! k).
                  c = (all_lights g1 ! (Suc i + k))\<lparr>generated := True, origin := origin c\<rparr>
                  \<and> ((\<forall>m. 0 \<le> Random ext m \<and> Random ext m \<le> 1)
                       \<and> 0 \<le> deviance (all_lights g1 ! (Suc i + k)) \<longrightarrow>
                     (\<forall>d < 3. \<bar>vidx (origin c) d - vidx (origin (all_lights g1 ! (Suc i + k))) d\<bar>
                        \<le> deviance (all_lights g1 ! (Suc i + k)))))"
    by blast
  let ?P = "\<lambda>bs k. length (bs ! k) = nat (intValue (samples (all_lights g ! (i + k))) - 1)
            \<and> (\<forall>c \<in> set (bs ! k).
                  c = (all_lights g ! (i + k))\<lparr>generated := True, origin := origin c\<rparr>
                  \<and> ((\<forall>m. 0 \<le> Random ext m \<and> Random ext m \<le> 1)
                       \<and> 0 \<le> deviance (all_lights g ! (i + k)) \<longrightarrow>
                     (\<forall>d < 3. \<bar>vidx (origin c) d - vidx (origin (all_lights g ! (i + k))) d\<bar>
                        \<le> deviance (all_lights g ! (i + k)))))"
  have "all_lights (JitterEntities_from ext i (Suc n) g) = all_lights g @ concat (new # blocks)"
    using blocks(1) new(1) by (simp add: g1_def)
  moreover have "length (new # blocks) = Suc n"
    using blocks(2) by simp
  moreover have "?P (new # blocks) k" if "k < Suc n" for k
  proof (cases k)
    case 0
    with new(2,3) show ?thesis by simp
  next
    case (Suc k')
    with that have k': "k' < n" by simp
    from blocks(3) k'
    have "length (blocks ! k') = nat (intValue (samples (all_lights g1 ! (Suc i + k'))) - 1)
            \<and> (\<forall>c \<in> set (blocks ! k').
                  c = (all_lights g1 ! (Suc i + k'))\<lparr>generated := True, origin := origin c\<rparr>
                  \<and> ((\<forall>m. 0 \<le> Random ext m \<and> Random ext m \<le> 1)
                       \<and> 0 \<le> deviance (all_lights g1 ! (Suc i + k')) \<longrightarrow>
                     (\<forall>d < 3. \<bar>vidx (origin c) d - vidx (origin (all_lights g1 ! (Suc i + k'))) d\<bar>
                        \<le> deviance (all_lights g1 ! (Suc i + k')))))"
      by blast
    then show ?thesis
      unfolding same [OF k'] using Suc by simp
  qed
  ultimately show ?case by blast
qed

text \<open>
  C6. After \<open>JitterEntities\<close> the list of lights is the list before it, unchanged,
  followed by one block of copies for each light of that list, in order: the block of a
  light with \<open>samples\<close> \<open>s\<close> has \<open>s - 1\<close> copies (none for \<open>s \<le> 1\<close>), each equal to
  the light but for \<open>generated\<close>, which is true, and for its origin, which, the values of
  \<open>Random()\<close> lying in [0, 1] and the deviance \<open>d\<close> not being negative, differs from the
  light's by at most \<open>d\<close> in each coordinate. The copies get no copies of their own.
\<close>

theorem JitterEntities_duplicates:
  "\<exists>blocks. all_lights (JitterEntities ext g) = all_lights g @ concat blocks
      \<and> length blocks = length (all_lights g)
      \<and> (\<forall>i < length (all_lights g).
            length (blocks ! i) = nat (intValue (samples (all_lights g ! i)) - 1)
            \<and> (\<forall>c \<in> set (blocks ! i).
                  c = (all_lights g ! i)\<lparr>generated := True, origin := origin c\<rparr>
                  \<and> ((\<forall>m. 0 \<le> Random ext m \<and> Random ext m \<le> 1)
                       \<and> 0 \<le> deviance (all_lights g ! i) \<longrightarrow>
                     (\<forall>d < 3. \<bar>vidx (origin c) d - vidx (origin (all_lights g ! i)) d\<bar>
                        \<le> deviance (all_lights g ! i)))))"
  using JitterEntities_from_appends [of 0 "length (all_lights g)" g ext]
  by (simp add: JitterEntities_def)


theorem JitterEntities_duplicates_witness:
  "0 \<le> deviance example_jitter_light
   \<and> length (all_lights (JitterEntities example_ext example_jitter_globals)) = 4
   \<and> take 1 (all_lights (JitterEntities example_ext example_jitter_globals)) = [example_jitter_light]
   \<and> \<not> generated example_jitter_light
   \<and> list_all generated (drop 1 (all_lights (JitterEntities example_ext example_jitter_globals)))
   \<and> list_all (\<lambda>c. \<bar>vidx (origin c) 0 - 8\<bar> \<le> 8 \<and> \<bar>vidx (origin c) 1 - 0\<bar> \<le> 8
                      \<and> \<bar>vidx (origin c) 2 - 0\<bar> \<le> 8)
       (drop 1 (all_lights (JitterEntities example_ext example_jitter_globals)))"
proof -
  let ?g = example_jitter_globals and ?e = example_jitter_light
  have lights: "all_lights ?g = [?e]"
    by (simp add: example_jitter_globals_def initial_globals_def)
  have rnd: "\<forall>m. 0 \<le> Random example_ext m \<and> Random example_ext m \<le> 1"
  proof
    fix m :: nat
    have "m mod 3 \<le> 2" by simp
    then have "real (m mod 3) \<le> 2" by linarith
    then show "0 \<le> Random example_ext m \<and> Random example_ext m \<le> 1"
      by (simp add: example_ext_def)
  qed
  have e: "deviance ?e = 8" "nat (intValue (samples ?e) - 1) = 3" "origin ?e = (8, 0, 0)"
    "\<not> generated ?e"
    by (simp_all add: example_jitter_light_def example_light_def intValue_def)
  from JitterEntities_duplicates [of example_ext ?g] obtain blocks where
    b: "all_lights (JitterEntities example_ext ?g) = all_lights ?g @ concat blocks"
      "length blocks = length (all_lights ?g)"
      "\<forall>i < length (all_lights ?g).
            length (blocks ! i) = nat (intValue (samples (all_lights ?g ! i)) - 1)
            \<and> (\<forall>c \<in> set (blocks ! i).
                  c = (all_lights ?g ! i)\<lparr>generated := True, origin := origin c\<rparr>
                  \<and> ((\<forall>m. 0 \<le> Random example_ext m \<and> Random example_ext m \<le> 1)
                       \<and> 0 \<le> deviance (all_lights ?g ! i) \<longrightarrow>
                     (\<forall>d < 3. \<bar>vidx (origin c) d - vidx (origin (all_lights ?g ! i)) d\<bar>
                        \<le> deviance (all_lights ?g ! i))))"
    by blast
  from b(2) lights obtain bl where bl: "blocks = [bl]"
    by (cases blocks) auto
  from b(3) have b0: "length bl = 3"
    "\<forall>c \<in> set bl. c = ?e\<lparr>generated := True, origin := origin c\<rparr>
        \<and> (\<forall>d < 3. \<bar>vidx (origin c) d - vidx (8, 0, 0) d\<bar> \<le> 8)"
    using rnd by (simp_all add: lights bl e)
  have out: "all_lights (JitterEntities example_ext ?g) = ?e # bl"
    using b(1) by (simp add: lights bl)
  have "\<forall>c \<in> set bl. generated c"
  proof
    fix c assume "c \<in> set bl"
    with b0(2) have "c = ?e\<lparr>generated := True, origin := origin c\<rparr>" by blast
    then have "generated c = generated (?e\<lparr>generated := True, origin := origin c\<rparr>)" by simp
    then show "generated c" by simp
  qed
  then have gen: "list_all generated bl"
    by (simp add: list_all_iff)
  have "\<forall>c \<in> set bl. \<bar>vidx (origin c) 0 - 8\<bar> \<le> 8 \<and> \<bar>vidx (origin c) 1 - 0\<bar> \<le> 8
      \<and> \<bar>vidx (origin c) 2 - 0\<bar> \<le> 8"
  proof
    fix c assume "c \<in> set bl"
    with b0(2) have all: "\<forall>d < 3. \<bar>vidx (origin c) d - vidx (8, 0, 0) d\<bar> \<le> 8" by blast
    have "(0::nat) < 3" "(1::nat) < 3" "(2::nat) < 3" by simp_all
    with all have "\<bar>vidx (origin c) 0 - vidx (8, 0, 0) 0\<bar> \<le> 8"
      "\<bar>vidx (origin c) 1 - vidx (8, 0, 0) 1\<bar> \<le> 8"
      "\<bar>vidx (origin c) 2 - vidx (8, 0, 0) 2\<bar> \<le> 8"
      by blast+
    then show "\<bar>vidx (origin c) 0 - 8\<bar> \<le> 8 \<and> \<bar>vidx (origin c) 1 - 0\<bar> \<le> 8
        \<and> \<bar>vidx (origin c) 2 - 0\<bar> \<le> 8"
      by simp
  qed
  then have near: "list_all (\<lambda>c. \<bar>vidx (origin c) 0 - 8\<bar> \<le> 8 \<and> \<bar>vidx (origin c) 1 - 0\<bar> \<le> 8
      \<and> \<bar>vidx (origin c) 2 - 0\<bar> \<le> 8) bl"
    by (simp add: list_all_iff)
  from b0(1) e gen near show ?thesis
    by (simp add: out)
qed

subsection \<open>The sky dome\<close>

lemma rint_sqrt:
  assumes k: "0 \<le> k" and lo: "k * k - k < q" and hi: "q \<le> k * k + k"
  shows "rint (sqrt (real_of_int q)) = k"
proof -
  let ?s = "sqrt (real_of_int q)"
  have q0: "0 \<le> q"
  proof -
    have "0 \<le> k * (k - 1)" using k by (cases "k = 0") auto
    then show ?thesis using lo by (simp add: algebra_simps)
  qed
  have "real_of_int (k * k - k + 1) \<le> real_of_int q"
    using lo by linarith
  then have "(real_of_int k - 1 / 2)\<^sup>2 < real_of_int q"
    by (simp add: power2_eq_square algebra_simps)
  then have low: "real_of_int k - 1 / 2 < ?s"
    by (rule real_less_rsqrt)
  have "real_of_int q \<le> real_of_int (k * k + k)"
    using hi by linarith
  then have "real_of_int q < (real_of_int k + 1 / 2)\<^sup>2"
    by (simp add: power2_eq_square algebra_simps)
  moreover have "0 \<le> real_of_int k + 1 / 2" using k by simp
  ultimately have high: "?s < real_of_int k + 1 / 2"
    using q0 by (simp add: real_less_lsqrt)
  show ?thesis
  proof (cases "real_of_int k \<le> ?s")
    case True
    with high have "\<lfloor>?s\<rfloor> = k" by linarith
    with high show ?thesis by (simp add: rint_def Let_def)
  next
    case False
    with low have f: "\<lfloor>?s\<rfloor> = k - 1" by linarith
    with low show ?thesis by (simp add: rint_def Let_def)
  qed
qed

lemma c_div_nonneg: "0 \<le> a \<Longrightarrow> 0 < b \<Longrightarrow> c_div a b = a div b"
  by (cases "a = 0") (simp_all add: c_div_def)

lemma example_iterations: "SetupSkyDome_iterations example_cfg = Inr 3"
proof -
  have "c_div (16 - 1) 4 = 3" by (simp add: c_div_def)
  moreover have "rint (sqrt (real_of_int 3)) = 2"
    by (rule rint_sqrt) simp_all
  ultimately show ?thesis
    by (simp add: SetupSkyDome_iterations_def example_cfg_def)
qed


lemma AddSun_all_suns:
  "all_suns (AddSun cfg v l c d g)
     = all_suns g @ [\<lparr>sun_sunvec = VectorScale (VectorNormalize v) (-16384), sun_sunlight = l,
                       sun_sunlight_color = c, sun_anglescale = global_anglescale cfg,
                       sun_dirt = Dirt_ResolveFlag cfg d\<rparr>]"
  by (simp add: AddSun_def)

lemma AddSun_frame: "(AddSun cfg v l c d g)\<lparr>all_suns := x\<rparr> = g\<lparr>all_suns := x\<rparr>"
  by (simp add: AddSun_def)

lemma unit_length:
  fixes c s C S :: real
  assumes "c * c + s * s = 1" "C * C + S * S = 1"
  shows "(c * C) * (c * C) + (s * C) * (s * C) + S * S = 1"
proof -
  have "(c * C) * (c * C) + (s * C) * (s * C) = (c * c + s * s) * (C * C)"
    by (simp add: algebra_simps)
  with assms show ?thesis by simp
qed

lemma unit_direction:
  "VectorNormalize (cos a * cos e, sin a * cos e, - sin e) = (cos a * cos e, sin a * cos e, - sin e)"
proof -
  have "cos a * cos a + sin a * sin a = 1" "cos e * cos e + sin e * sin e = 1"
    using sin_cos_squared_add2 [of a] sin_cos_squared_add2 [of e]
    by (simp_all only: power2_eq_square)
  then have "(cos a * cos e) * (cos a * cos e) + (sin a * cos e) * (sin a * cos e) + sin e * sin e = 1"
    by (rule unit_length)
  then have "VectorLength (cos a * cos e, sin a * cos e, - sin e) = 1"
    by (simp add: VectorLength_def DotProduct_def)
  then show ?thesis
    by (simp add: VectorNormalize_def VectorScale_def)
qed

lemma vertical_direction: "VectorScale (VectorNormalize (0, 0, 1)) (-16384) = (0, 0, -16384)"
  by (simp add: VectorNormalize_def VectorLength_def DotProduct_def VectorScale_def)

lemma SetupSkyDome_angles_suns:
  assumes "0 < s2v" "s3v \<le> 0" "0 < sin elevation"
  shows "\<exists>new. all_suns (snd (SetupSkyDome_angles cfg s2v s3v elevation angleStep n angle g))
             = all_suns g @ new
      \<and> length new = n
      \<and> list_all (\<lambda>s. sun_sunlight s = s2v \<and> 0 < vidx (sun_sunvec s) 2) new"
proof (induction n arbitrary: angle g)
  case 0
  then show ?case by simp
next
  case (Suc n)
  define direction where
    "direction = (cos angle * cos elevation, sin angle * cos elevation, - sin elevation)"
  define g1 where "g1 = AddSun cfg direction s2v (sunlight2_color cfg) (intValue (sunlight2_dirt cfg)) g"
  define sun where "sun = \<lparr>sun_sunvec = VectorScale (VectorNormalize direction) (-16384),
      sun_sunlight = s2v, sun_sunlight_color = sunlight2_color cfg,
      sun_anglescale = global_anglescale cfg,
      sun_dirt = Dirt_ResolveFlag cfg (intValue (sunlight2_dirt cfg))\<rparr>"
  have step: "SetupSkyDome_angles cfg s2v s3v elevation angleStep (Suc n) angle g
      = SetupSkyDome_angles cfg s2v s3v elevation angleStep n (angle + angleStep) g1"
    using assms(1,2) by (simp add: Let_def g1_def direction_def)
  have g1: "all_suns g1 = all_suns g @ [sun]"
    by (simp add: g1_def sun_def AddSun_all_suns)
  have up: "0 < vidx (sun_sunvec sun) 2"
    using assms(3) by (simp add: sun_def direction_def unit_direction VectorScale_def)
  from Suc.IH [of "angle + angleStep" g1] obtain new where new:
    "all_suns (snd (SetupSkyDome_angles cfg s2v s3v elevation angleStep n (angle + angleStep) g1))
       = all_suns g1 @ new"
    "length new = n"
    "list_all (\<lambda>s. sun_sunlight s = s2v \<and> 0 < vidx (sun_sunvec s) 2) new"
    by blast
  have "all_suns (snd (SetupSkyDome_angles cfg s2v s3v elevation angleStep (Suc n) angle g))
      = all_suns g @ (sun # new)"
    using step new(1) g1 by simp
  moreover have "length (sun # new) = Suc n"
    using new(2) by simp
  moreover have "list_all (\<lambda>s. sun_sunlight s = s2v \<and> 0 < vidx (sun_sunvec s) 2) (sun # new)"
    using new(3) up by (simp add: sun_def)
  ultimately show ?case by blast
qed

lemma SetupSkyDome_angles_frame:
  "(snd (SetupSkyDome_angles cfg s2v s3v elevation angleStep n angle g))\<lparr>all_suns := x\<rparr>
     = g\<lparr>all_suns := x\<rparr>"
  by (induction n arbitrary: angle g) (simp_all add: Let_def AddSun_frame)

lemma SetupSkyDome_elevations_suns:
  assumes "0 < s2v" "s3v \<le> 0" "0 < elevation" "0 \<le> elevationStep"
    "elevation + real n * elevationStep < pi"
  shows "\<exists>new. all_suns (SetupSkyDome_elevations cfg s2v s3v elevationStep angleStep angleSteps
                   elevationSteps n elevation angle g)
             = all_suns g @ new
      \<and> length new = n * nat angleSteps
      \<and> list_all (\<lambda>s. sun_sunlight s = s2v \<and> 0 < vidx (sun_sunvec s) 2) new"
  using assms(3,5)
proof (induction n arbitrary: elevation angle g)
  case 0
  then show ?case by simp
next
  case (Suc n)
  obtain angle' g' where row:
    "SetupSkyDome_angles cfg s2v s3v elevation angleStep (nat angleSteps) angle g = (angle', g')"
    by (cases "SetupSkyDome_angles cfg s2v s3v elevation angleStep (nat angleSteps) angle g")
  have "0 \<le> real n * elevationStep"
    using assms(4) by simp
  moreover have more: "real (Suc n) * elevationStep = elevationStep + real n * elevationStep"
    by (simp add: algebra_simps)
  ultimately have "elevation < pi"
    using Suc.prems(2) assms(4) by linarith
  with Suc.prems(1) have "0 < sin elevation"
    by (rule sin_gt_zero)
  from SetupSkyDome_angles_suns [OF assms(1,2) this, of cfg angleStep "nat angleSteps" angle g]
  obtain new1 where new1: "all_suns g' = all_suns g @ new1" "length new1 = nat angleSteps"
    "list_all (\<lambda>s. sun_sunlight s = s2v \<and> 0 < vidx (sun_sunvec s) 2) new1"
    using row by auto
  have next_ok: "0 < elevation + elevationStep"
    "elevation + elevationStep + real n * elevationStep < pi"
    using Suc.prems assms(4) more by linarith+
  from Suc.IH [OF next_ok, of "angle' + angleStep / real_of_int elevationSteps" g']
  obtain new2 where new2:
    "all_suns (SetupSkyDome_elevations cfg s2v s3v elevationStep angleStep angleSteps
                   elevationSteps n (elevation + elevationStep)
                   (angle' + angleStep / real_of_int elevationSteps) g')
       = all_suns g' @ new2"
    "length new2 = n * nat angleSteps"
    "list_all (\<lambda>s. sun_sunlight s = s2v \<and> 0 < vidx (sun_sunvec s) 2) new2"
    by blast
  have "all_suns (SetupSkyDome_elevations cfg s2v s3v elevationStep angleStep angleSteps
                   elevationSteps (Suc n) elevation angle g)
      = all_suns g @ (new1 @ new2)"
    using row new1(1) new2(1) by simp
  moreover have "length (new1 @ new2) = Suc n * nat angleSteps"
    using new1(2) new2(2) by simp
  moreover have "list_all (\<lambda>s. sun_sunlight s = s2v \<and> 0 < vidx (sun_sunvec s) 2) (new1 @ new2)"
    using new1(3) new2(3) by simp
  ultimately show ?case by blast
qed

lemma SetupSkyDome_elevations_frame:
  "(SetupSkyDome_elevations cfg s2v s3v elevationStep angleStep angleSteps elevationSteps n
      elevation angle g)\<lparr>all_suns := x\<rparr> = g\<lparr>all_suns := x\<rparr>"
proof (induction n arbitrary: elevation angle g)
  case 0
  then show ?case by simp
next
  case (Suc n)
  obtain angle' g' where row:
    "SetupSkyDome_angles cfg s2v s3v elevation angleStep (nat angleSteps) angle g = (angle', g')"
    by (cases "SetupSkyDome_angles cfg s2v s3v elevation angleStep (nat angleSteps) angle g")
  have "(snd (SetupSkyDome_angles cfg s2v s3v elevation angleStep (nat angleSteps) angle g))
          \<lparr>all_suns := x\<rparr> = g\<lparr>all_suns := x\<rparr>"
    by (rule SetupSkyDome_angles_frame)
  then have "g'\<lparr>all_suns := x\<rparr> = g\<lparr>all_suns := x\<rparr>"
    using row by simp
  with Suc.IH [of "elevation + elevationStep" "angle' + angleStep / real_of_int elevationSteps" g']
  show ?case using row by simp
qed


lemma SetupSkyDome_iterations_formula:
  assumes "1 \<le> sunsamples cfg"
  shows "SetupSkyDome_iterations cfg
      = Inr (max (rint (sqrt (real_of_int ((sunsamples cfg - 1) div 4))) + 1) 2)"
  using assms by (simp add: SetupSkyDome_iterations_def c_div_nonneg Let_def pos_imp_zdiv_neg_iff)

lemma map_replicate_const:
  "list_all (\<lambda>s. f s = v \<and> P s) xs \<Longrightarrow> map f xs = replicate (length xs) v"
  by (induction xs) simp_all

lemma SetupSkyDome_upper_suns:
  fixes cfg :: settings and g :: globals and iterations :: int
  assumes it: "SetupSkyDome_iterations cfg = Inr iterations"
    and L: "0 < sunlight2 cfg" and s3: "sunlight3 cfg \<le> 0"
  defines "E \<equiv> iterations - 1"
  defines "N \<equiv> (E * 4) * E + 1"
  shows "\<exists>g' grid top. SetupSkyDome cfg g = Inr g'
      \<and> all_suns g' = all_suns g @ grid @ [top]
      \<and> int (length (grid @ [top])) = N
      \<and> map sun_sunlight (grid @ [top]) = replicate (nat N) (sunlight2 cfg / real_of_int N)
      \<and> sum_list (map sun_sunlight (grid @ [top])) = sunlight2 cfg
      \<and> list_all (\<lambda>s. 0 < vidx (sun_sunvec s) 2) grid
      \<and> sun_sunvec top = (0, 0, -16384)
      \<and> all_lights g' = all_lights g"
proof -
  have it2: "2 \<le> iterations"
    using it by (auto simp: SetupSkyDome_iterations_def Let_def split: if_splits)
  then have E: "1 \<le> E" by (simp add: E_def)
  then have "0 < E * E" by (simp add: zero_less_mult_iff)
  then have N: "0 < N" "N = 4 * (E * E) + 1" by (simp_all add: N_def)
  define v2 where "v2 = sunlight2 cfg / real_of_int N"
  define v3 where "v3 = sunlight3 cfg / real_of_int N"
  have v2: "0 < v2" using L N(1) by (simp add: v2_def)
  have v3: "v3 \<le> 0" using s3 N(1) by (simp add: v3_def divide_le_0_iff)
  define elevationStep where "elevationStep = DEG2RAD (90 / real_of_int (E + 1))"
  define angleStep where "angleStep = DEG2RAD (360 / real_of_int (E * 4))"
  define g2 where "g2 = logprint ''using %d suns for _sunlight2. total light: %f color: %f %f %f'' g"
  define g3 where "g3 = SetupSkyDome_elevations cfg v2 v3 elevationStep angleStep (E * 4) E (nat E)
      (elevationStep * 0.5) 0 g2"
  define g4 where "g4 = AddSun cfg (0, 0, 1) v2 (sunlight2_color cfg) (intValue (sunlight2_dirt cfg)) g3"
  have res: "SetupSkyDome cfg g = Inr g4"
  proof -
    have c: "0 < sunlight2 cfg / real_of_int ((iterations - 1) * 4 * (iterations - 1) + 1)"
      using v2 unfolding v2_def N_def E_def .
    have d: "\<not> 0 < sunlight3 cfg / real_of_int ((iterations - 1) * 4 * (iterations - 1) + 1)"
      using v3 unfolding v3_def N_def E_def by simp
    show ?thesis
      unfolding SetupSkyDome_def it Let_def g4_def g3_def g2_def v2_def v3_def elevationStep_def
        angleStep_def N_def E_def
      using c d L s3 by simp
  qed
  have step_eq: "elevationStep * real_of_int (E + 1) = pi / 2"
    using E by (simp add: elevationStep_def DEG2RAD_def field_simps)
  have E1: "0 < real_of_int (E + 1)" using E by simp
  have step_pos: "0 < elevationStep"
  proof (rule ccontr)
    assume "\<not> 0 < elevationStep"
    then have "elevationStep * real_of_int (E + 1) \<le> 0"
      using E1 by (simp add: mult_le_0_iff)
    with step_eq show False using pi_gt_zero by linarith
  qed
  have "real (nat E) = real_of_int (E + 1) - 1"
    using E by simp
  then have "elevationStep * 0.5 + real (nat E) * elevationStep
      = elevationStep * real_of_int (E + 1) - elevationStep * 0.5"
    by (simp add: algebra_simps)
  with step_eq step_pos have below: "elevationStep * 0.5 + real (nat E) * elevationStep < pi"
    using pi_gt_zero by linarith
  have "0 < elevationStep * 0.5" "0 \<le> elevationStep"
    using step_pos by simp_all
  from SetupSkyDome_elevations_suns [OF v2 v3 this below, of cfg angleStep "E * 4" E 0 g2]
  obtain grid where grid: "all_suns g3 = all_suns g2 @ grid" "length grid = nat E * nat (E * 4)"
    "list_all (\<lambda>s. sun_sunlight s = v2 \<and> 0 < vidx (sun_sunvec s) 2) grid"
    unfolding g3_def by blast
  define top where "top = \<lparr>sun_sunvec = VectorScale (VectorNormalize (0, 0, 1)) (-16384),
      sun_sunlight = v2, sun_sunlight_color = sunlight2_color cfg,
      sun_anglescale = global_anglescale cfg,
      sun_dirt = Dirt_ResolveFlag cfg (intValue (sunlight2_dirt cfg))\<rparr>"
  have suns: "all_suns g4 = all_suns g @ grid @ [top]"
    by (simp add: g4_def AddSun_all_suns grid(1) top_def g2_def logprint_def)
  have "nat E * nat (E * 4) = nat (4 * (E * E))"
    using E by (simp add: nat_mult_distrib algebra_simps)
  then have len: "int (length (grid @ [top])) = N"
    using grid(2) N E by simp
  have "list_all (\<lambda>s. sun_sunlight s = v2 \<and> True) (grid @ [top])"
    using grid(3) by (simp add: top_def list_all_iff)
  then have vals: "map sun_sunlight (grid @ [top]) = replicate (length (grid @ [top])) v2"
    by (rule map_replicate_const)
  have len': "length (grid @ [top]) = nat N"
    using len by linarith
  have vals': "map sun_sunlight (grid @ [top]) = replicate (nat N) (sunlight2 cfg / real_of_int N)"
    using vals [unfolded len' v2_def] .
  have "sum_list (replicate (nat N) (sunlight2 cfg / real_of_int N)) = sunlight2 cfg"
    using N(1) by (simp add: sum_list_replicate)
  with vals' have total: "sum_list (map sun_sunlight (grid @ [top])) = sunlight2 cfg"
    by simp
  have up: "list_all (\<lambda>s. 0 < vidx (sun_sunvec s) 2) grid"
    using grid(3) by (simp add: list_all_iff)
  have topv: "sun_sunvec top = (0, 0, -16384)"
    by (simp add: top_def vertical_direction)
  have "g3\<lparr>all_suns := []\<rparr> = g2\<lparr>all_suns := []\<rparr>"
    unfolding g3_def by (rule SetupSkyDome_elevations_frame)
  then have "all_lights (g3\<lparr>all_suns := []\<rparr>) = all_lights (g2\<lparr>all_suns := []\<rparr>)"
    by simp
  then have lights: "all_lights g4 = all_lights g"
    by (simp add: g4_def AddSun_def g2_def logprint_def)
  from res suns len vals' total up topv lights show ?thesis by blast
qed

text \<open>
  C1. In the spec's scenario (\<open>_sunlight2\<close> 100, 16 sun samples, no \<open>_sunlight3\<close>)
  \<open>SetupSkyDome\<close> takes 3 iterations and adds 17 suns of intensity 100/17 each, 100 in
  sum, and none for the lower hemisphere. The 16 suns of the grid stand above the horizon
  (the third coordinate of \<open>sunvec\<close> is positive); the last one, the vertical sun of
  \<open>_sunlight2\<close>, stands straight below. \<open>SetupSkyDome_upper_suns\<close> above has the same
  for every setting with \<open>_sunlight2 > 0\<close> and \<open>_sunlight3 \<le> 0\<close>.
\<close>

theorem SetupSkyDome_vertical_sun_below:
  "SetupSkyDome_iterations example_cfg = Inr 3
   \<and> \<not> isl (SetupSkyDome example_cfg initial_globals)
   \<and> length (all_suns (projr (SetupSkyDome example_cfg initial_globals))) = 17
   \<and> map sun_sunlight (all_suns (projr (SetupSkyDome example_cfg initial_globals)))
       = replicate 17 (100 / 17)
   \<and> sum_list (map sun_sunlight (all_suns (projr (SetupSkyDome example_cfg initial_globals)))) = 100
   \<and> list_all (\<lambda>s. 0 < vidx (sun_sunvec s) 2)
       (butlast (all_suns (projr (SetupSkyDome example_cfg initial_globals))))
   \<and> sun_sunvec (last (all_suns (projr (SetupSkyDome example_cfg initial_globals)))) = (0, 0, -16384)"
proof -
  have cfg: "0 < sunlight2 example_cfg" "sunlight3 example_cfg \<le> 0" "sunlight2 example_cfg = 100"
    by (simp_all add: example_cfg_def)
  have n: "((3::int) - 1) * 4 * (3 - 1) + 1 = 17" by simp
  note u = SetupSkyDome_upper_suns [OF example_iterations cfg(1,2), of initial_globals,
      unfolded n cfg(3)]
  from u obtain g' grid top where r: "SetupSkyDome example_cfg initial_globals = Inr g'"
    "all_suns g' = all_suns initial_globals @ grid @ [top]"
    "int (length (grid @ [top])) = 17"
    "map sun_sunlight (grid @ [top]) = replicate (nat 17) (100 / real_of_int 17)"
    "sum_list (map sun_sunlight (grid @ [top])) = 100"
    "list_all (\<lambda>s. 0 < vidx (sun_sunvec s) 2) grid"
    "sun_sunvec top = (0, 0, -16384)"
    by blast
  have suns: "all_suns g' = grid @ [top]"
    using r(2) by (simp add: initial_globals_def)
  from r(3) have "length (grid @ [top]) = 17" by linarith
  with r show ?thesis
    by (simp add: example_iterations suns del: length_append)
qed

subsection \<open>The lights after the jitter\<close>

lemma MatchTargets_loop_length:
  "length (fst (MatchTargets_loop dicts lights lg)) = length lights"
  by (induction lights arbitrary: lg) (simp_all add: Let_def split_beta split: option.splits)

lemma MatchTargets_length: "length (all_lights (MatchTargets g)) = length (all_lights g)"
  using MatchTargets_loop_length [of "entdicts g" "all_lights g" "logged g"]
  by (simp add: MatchTargets_def split_beta)

lemma SetupSpotlights_length: "length (all_lights (SetupSpotlights ext g)) = length (all_lights g)"
  by (simp add: SetupSpotlights_def)

lemma AddSun_all_lights: "all_lights (AddSun cfg v l c d g) = all_lights g"
  by (simp add: AddSun_def)

lemma SetupSun_samples_all_lights:
  "SetupSun_samples fuel ext cfg sv l color i n g = Some g' \<Longrightarrow> all_lights g' = all_lights g"
proof (induction n arbitrary: i g)
  case 0
  then show ?case by simp
next
  case (Suc n)
  show ?case
  proof (cases "i = 0")
    case True
    with Suc.prems Suc.IH [of "Suc i" "AddSun cfg sv l color (intValue (sunlight_dirt cfg)) g"]
    show ?thesis by (simp add: AddSun_all_lights)
  next
    case False
    with Suc.prems obtain da de calls where
      j: "SetupSun_jitter fuel ext cfg (random_calls g) = Some (da, de, calls)"
      by (auto simp: Let_def split: option.splits)
    define direction where "direction =
      (cos (atan2 (vidx sv 1) (vidx sv 0) + da)
         * cos (atan2 (vidx sv 2) (sqrt (vidx sv 0 * vidx sv 0 + vidx sv 1 * vidx sv 1)) + de),
       sin (atan2 (vidx sv 1) (vidx sv 0) + da)
         * cos (atan2 (vidx sv 2) (sqrt (vidx sv 0 * vidx sv 0 + vidx sv 1 * vidx sv 1)) + de),
       sin (atan2 (vidx sv 2) (sqrt (vidx sv 0 * vidx sv 0 + vidx sv 1 * vidx sv 1)) + de))"
    from Suc.prems False j
    have "SetupSun_samples fuel ext cfg sv l color (Suc i) n
            (AddSun cfg direction l color (intValue (sunlight_dirt cfg)) (g\<lparr>random_calls := calls\<rparr>))
          = Some g'"
      by (simp add: Let_def direction_def)
    from Suc.IH [OF this] show ?thesis
      by (simp add: AddSun_all_lights)
  qed
qed

lemma SetupSun_all_lights:
  "SetupSun fuel ext cfg l color v g = Some g' \<Longrightarrow> all_lights g' = all_lights g"
  unfolding SetupSun_def Let_def
  by (drule SetupSun_samples_all_lights) (simp add: logprint_def)

lemma SetupSuns_all_lights:
  "SetupSuns fuel ext cfg g = Some g' \<Longrightarrow> all_lights g' = all_lights g"
  by (auto simp: SetupSuns_def logprint_def dest!: SetupSun_all_lights split: option.splits if_splits)

lemma SetupSkyDome_elevations_all_lights:
  "all_lights (SetupSkyDome_elevations cfg s2v s3v elevationStep angleStep angleSteps elevationSteps
      n elevation angle g) = all_lights g"
proof -
  have "(SetupSkyDome_elevations cfg s2v s3v elevationStep angleStep angleSteps elevationSteps
      n elevation angle g)\<lparr>all_suns := []\<rparr> = g\<lparr>all_suns := []\<rparr>"
    by (rule SetupSkyDome_elevations_frame)
  then have "all_lights ((SetupSkyDome_elevations cfg s2v s3v elevationStep angleStep angleSteps
      elevationSteps n elevation angle g)\<lparr>all_suns := []\<rparr>) = all_lights (g\<lparr>all_suns := []\<rparr>)"
    by simp
  then show ?thesis by simp
qed

lemma SetupSkyDome_all_lights:
  "SetupSkyDome cfg g = Inr g' \<Longrightarrow> all_lights g' = all_lights g"
  by (auto simp: SetupSkyDome_def Let_def AddSun_all_lights SetupSkyDome_elevations_all_lights
      logprint_def split: sum.splits if_splits)

lemma FixLightsOnFaces_loop_length:
  "FixLightsOnFaces_loop fuel bsp lights lg = Some (Inr (lights', lg'))
   \<Longrightarrow> length lights' = length lights"
proof (induction lights arbitrary: lg lights' lg')
  case Nil
  then show ?case by simp
next
  case (Cons entity rest)
  from Cons.prems obtain lg1 rest' where
    r: "FixLightsOnFaces_loop fuel bsp rest lg1 = Some (Inr (rest', lg'))"
      "length lights' = Suc (length rest')"
    by (auto simp: rbind_def split: if_splits option.splits sum.splits prod.splits)
  from Cons.IH [OF r(1)] r(2) show ?case by simp
qed

lemma FixLightsOnFaces_length:
  "FixLightsOnFaces fuel bsp g = Some (Inr g') \<Longrightarrow> length (all_lights g') = length (all_lights g)"
  by (auto simp: FixLightsOnFaces_def rbind_def dest: FixLightsOnFaces_loop_length
      split: option.splits sum.splits prod.splits)

lemma SetupLightLeafnums_length:
  "length (all_lights (SetupLightLeafnums ext bsp g)) = length (all_lights g)"
  by (simp add: SetupLightLeafnums_def)

lemma SetupLights_finish_length:
  assumes "SetupLights_finish fuel ext cfg bsp g = Some (Inr g')"
  shows "length (all_lights g') = length (all_lights g)"
proof -
  from assms obtain g3 g4 g5 where
    s: "SetupSuns fuel ext cfg (SetupSpotlights ext (MatchTargets g)) = Some g3"
      "SetupSkyDome cfg g3 = Inr g4"
      "FixLightsOnFaces fuel bsp g4 = Some (Inr g5)"
      "g' = SetupLightLeafnums ext bsp g5"
    by (auto simp: SetupLights_finish_def Let_def rbind_def split: option.splits sum.splits)
  show ?thesis
    using SetupSuns_all_lights [OF s(1)] SetupSkyDome_all_lights [OF s(2)]
      FixLightsOnFaces_length [OF s(3)]
    by (simp add: s(4) SetupLightLeafnums_length SetupSpotlights_length MatchTargets_length)
qed


lemma SetupSun_jitter_first_draw:
  assumes "0 \<le> Random ext c" "Random ext c \<le> 1" "0 \<le> Random ext (c + 1)" "Random ext (c + 1) \<le> 1"
  shows "SetupSun_jitter (Suc fuel) ext cfg c
      = Some ((Random ext c * 2 - 1) * DEG2RAD (sun_deviance cfg),
              (Random ext (c + 1) * 2 - 1) * DEG2RAD (sun_deviance cfg), c + 2)"
proof -
  let ?d = "sun_deviance cfg"
  have sq: "((r * 2 - 1) * DEG2RAD ?d) * ((r * 2 - 1) * DEG2RAD ?d) \<le> ?d * ?d / 2"
    if "0 \<le> r" "r \<le> 1" for r :: real
  proof -
    have "(r * 2 - 1) * (r * 2 - 1) \<le> 1"
    proof -
      have "\<bar>r * 2 - 1\<bar> \<le> 1" using that by (simp add: abs_le_iff)
      then have "\<bar>r * 2 - 1\<bar> * \<bar>r * 2 - 1\<bar> \<le> 1 * 1"
        by (intro mult_mono) simp_all
      then show ?thesis by simp
    qed
    moreover have "(pi / 180) * (pi / 180) \<le> 1 / 2"
    proof -
      have "pi / 180 \<le> 1 / 2" using pi_less_4 by simp
      moreover have "0 \<le> pi / 180" by simp
      ultimately have "(pi / 180) * (pi / 180) \<le> (1 / 2) * (1 / 2)"
        by (intro mult_mono) simp_all
      then show ?thesis by simp
    qed
    moreover have "0 \<le> (pi / 180) * (pi / 180)" "0 \<le> ?d * ?d" by simp_all
    ultimately have "((r * 2 - 1) * (r * 2 - 1)) * ((pi / 180) * (pi / 180)) \<le> 1 * (1 / 2)"
      by (intro mult_mono) simp_all
    then have "(((r * 2 - 1) * (r * 2 - 1)) * ((pi / 180) * (pi / 180))) * (?d * ?d)
        \<le> (1 * (1 / 2)) * (?d * ?d)"
      by (rule mult_right_mono) simp
    then show ?thesis
      by (simp add: DEG2RAD_def algebra_simps)
  qed
  from sq [OF assms(1,2)] sq [OF assms(3,4)]
  have "\<not> ((Random ext c * 2 - 1) * DEG2RAD ?d) * ((Random ext c * 2 - 1) * DEG2RAD ?d)
        + ((Random ext (c + 1) * 2 - 1) * DEG2RAD ?d) * ((Random ext (c + 1) * 2 - 1) * DEG2RAD ?d)
        > ?d * ?d"
    by linarith
  then show ?thesis
    by (simp add: Let_def)
qed

text \<open>
  C7. \<open>MatchTargets\<close>, \<open>SetupSpotlights\<close>, \<open>SetupSuns\<close>, \<open>SetupSkyDome\<close>,
  \<open>FixLightsOnFaces\<close> and \<open>SetupLightLeafnums\<close> each leave the number of lights as it
  is, \<open>SetupSuns\<close> and \<open>SetupSkyDome\<close> the list itself; so the number of lights where
  \<open>SetupLights\<close> is through with them is the number after \<open>JitterEntities\<close>.
\<close>

theorem SetupLights_finish_keeps_count:
  "length (all_lights (MatchTargets g)) = length (all_lights g)
   \<and> length (all_lights (SetupSpotlights ext g)) = length (all_lights g)
   \<and> (\<forall>g'. SetupSuns fuel ext cfg g = Some g' \<longrightarrow> all_lights g' = all_lights g)
   \<and> (\<forall>g'. SetupSkyDome cfg g = Inr g' \<longrightarrow> all_lights g' = all_lights g)
   \<and> (\<forall>g'. FixLightsOnFaces fuel bsp g = Some (Inr g') \<longrightarrow>
          length (all_lights g') = length (all_lights g))
   \<and> length (all_lights (SetupLightLeafnums ext bsp g)) = length (all_lights g)
   \<and> (\<forall>g'. SetupLights_finish fuel ext cfg bsp g = Some (Inr g') \<longrightarrow>
          length (all_lights g') = length (all_lights g))"
proof (intro conjI allI impI)
  show "length (all_lights (MatchTargets g)) = length (all_lights g)"
    by (rule MatchTargets_length)
  show "length (all_lights (SetupSpotlights ext g)) = length (all_lights g)"
    by (rule SetupSpotlights_length)
  show "length (all_lights (SetupLightLeafnums ext bsp g)) = length (all_lights g)"
    by (rule SetupLightLeafnums_length)
next
  fix g' assume "SetupSuns fuel ext cfg g = Some g'"
  then show "all_lights g' = all_lights g" by (rule SetupSuns_all_lights)
next
  fix g' assume "SetupSkyDome cfg g = Inr g'"
  then show "all_lights g' = all_lights g" by (rule SetupSkyDome_all_lights)
next
  fix g' assume "FixLightsOnFaces fuel bsp g = Some (Inr g')"
  then show "length (all_lights g') = length (all_lights g)" by (rule FixLightsOnFaces_length)
next
  fix g' assume "SetupLights_finish fuel ext cfg bsp g = Some (Inr g')"
  then show "length (all_lights g') = length (all_lights g)" by (rule SetupLights_finish_length)
qed

lemma SetupSuns_one_sun:
  assumes "sun_deviance cfg = 0" "sun2 cfg = 0"
  shows "SetupSuns fuel ext cfg g
      = Some (AddSun cfg (VectorNormalize (sunvec cfg)) (sunlight cfg / 1) (sunlight_color cfg)
                (intValue (sunlight_dirt cfg)) g)"
  using assms by (simp add: SetupSuns_def SetupSun_def)

lemma SetupSkyDome_no_dome:
  assumes "1 \<le> sunsamples cfg" "sunlight2 cfg \<le> 0" "sunlight3 cfg \<le> 0"
  shows "SetupSkyDome cfg g = Inr g"
  using assms by (simp add: SetupSkyDome_def SetupSkyDome_iterations_formula)

lemma MatchTargets_loop_no_targets:
  "list_all (\<lambda>e. ValueForKey e ''target'' = []) lights
   \<Longrightarrow> MatchTargets_loop dicts lights lg = (lights, lg)"
  by (induction lights) simp_all

lemma SetupSpotlights_light_plain:
  "targetent e = None \<Longrightarrow> \<not> spotlight e \<Longrightarrow> SetupSpotlights_light ext e = e"
  by (simp add: SetupSpotlights_light_def)

theorem SetupLights_finish_keeps_count_witness:
  "\<exists>g'. SetupLights_finish 2 example_ext example_dark_cfg example_bsp
            (JitterEntities example_ext example_jitter_globals) = Some (Inr g')
      \<and> length (all_lights (JitterEntities example_ext example_jitter_globals)) = 4
      \<and> length (all_lights g') = 4"
proof -
  let ?g = "JitterEntities example_ext example_jitter_globals"
  let ?c = "example_jitter_light\<lparr>generated := True, origin := (0, 0, 8)\<rparr>"
  let ?lights = "[example_jitter_light, ?c, ?c, ?c]"
  have lights: "all_lights ?g = ?lights"
    by code_simp
  have lg: "logged ?g = []"
    by code_simp
  define g2 where "g2 = SetupSpotlights example_ext (MatchTargets ?g)"
  have plain: "list_all (\<lambda>e. ValueForKey e ''target'' = [] \<and> targetent e = None \<and> \<not> spotlight e) ?lights"
    by code_simp
  have g2: "all_lights g2 = ?lights" "logged g2 = []"
    using plain
    by (simp_all add: g2_def SetupSpotlights_def MatchTargets_def lights lg
        MatchTargets_loop_no_targets SetupSpotlights_light_plain)
  have cfg: "sun_deviance example_dark_cfg = 0" "sun2 example_dark_cfg = 0"
    "1 \<le> sunsamples example_dark_cfg" "sunlight2 example_dark_cfg \<le> 0"
    "sunlight3 example_dark_cfg \<le> 0"
    by (simp_all add: example_dark_cfg_def example_cfg_def)
  define g3 where "g3 = AddSun example_dark_cfg (VectorNormalize (sunvec example_dark_cfg))
      (sunlight example_dark_cfg / 1) (sunlight_color example_dark_cfg)
      (intValue (sunlight_dirt example_dark_cfg)) g2"
  have suns: "SetupSuns 2 example_ext example_dark_cfg g2 = Some g3"
    unfolding g3_def by (rule SetupSuns_one_sun [OF cfg(1,2)])
  have dome: "SetupSkyDome example_dark_cfg g3 = Inr g3"
    by (rule SetupSkyDome_no_dome [OF cfg(3,4,5)])
  have g3: "all_lights g3 = ?lights" "logged g3 = []"
    by (simp_all add: g3_def AddSun_def g2)
  have loop: "FixLightsOnFaces_loop 2 example_bsp ?lights []
      = Some (Inr ([example_jitter_light, ?c\<lparr>origin := (2, 0, 8)\<rparr>, ?c\<lparr>origin := (2, 0, 8)\<rparr>,
                    ?c\<lparr>origin := (2, 0, 8)\<rparr>], []))"
    by code_simp
  have "\<exists>g'. FixLightsOnFaces 2 example_bsp g3 = Some (Inr g')"
    unfolding FixLightsOnFaces_def g3 loop by (simp add: rbind_def)
  then have "\<exists>g'. SetupLights_finish 2 example_ext example_dark_cfg example_bsp ?g = Some (Inr g')"
    by (auto simp: SetupLights_finish_def Let_def g2_def [symmetric] suns dome rbind_def)
  then obtain g' where g': "SetupLights_finish 2 example_ext example_dark_cfg example_bsp ?g = Some (Inr g')"
    by blast
  with SetupLights_finish_keeps_count [of ?g example_ext 2 example_dark_cfg example_bsp]
  have "length (all_lights g') = length (all_lights ?g)" by blast
  with g' lights show ?thesis by simp
qed

subsection \<open>The vertex cap of SubdividePolygon\<close>

lemma Face_TextureName_error: "Face_TextureName bsp face = Inl e \<Longrightarrow> e = Invalid_access"
  by (auto simp: Face_TextureName_def Face_Miptex_def Face_RgbaMiptex_def raw_index_def
      split: if_splits option.splits sum.splits)

lemma CreateSurfaceLightOnFaceSubdivision_error:
  "CreateSurfaceLightOnFaceSubdivision ext face mi t bsp numverts verts g = Inl e
   \<Longrightarrow> e = Not_a_number \<or> e = Invalid_access"
  by (auto simp: CreateSurfaceLightOnFaceSubdivision_def Let_def raw_index_def
      split: if_splits sum.splits)

lemma SubdividePolygon_emit_error:
  "SubdividePolygon_emit ext face mi bsp numverts verts texname templates g = Inl e
   \<Longrightarrow> e = Not_a_number \<or> e = Invalid_access"
proof (induction templates arbitrary: g)
  case Nil
  then show ?case by simp
next
  case (Cons t templates)
  then show ?case
    by (auto split: if_splits sum.splits dest: CreateSurfaceLightOnFaceSubdivision_error)
qed

text \<open>
  C4, as the code has it. The cap is 60 vertices, tested when a call is entered: a call
  on more than 60 vertices ends with the fatal error. A call on at most 60 vertices
  passes the test: where no axis is cut (a leaf cell) it returns, and not with that
  error; where an axis is cut, its result is that of the calls on the front and the back
  polygon, each under the same test.
\<close>

theorem SubdividePolygon_cap:
  "(numverts > 60 \<longrightarrow>
      SubdividePolygon (Suc fuel) ext face mi bsp numverts verts subdivide_size g
        = Some (Inl (Fatal ''numverts = %i'')))
   \<and> (numverts \<le> 60 \<and> list_all (\<lambda>i. SubdividePolygon_axis verts subdivide_size i = None) [0, 1, 2] \<longrightarrow>
        SubdividePolygon (Suc fuel) ext face mi bsp numverts verts subdivide_size g \<noteq> None
        \<and> SubdividePolygon (Suc fuel) ext face mi bsp numverts verts subdivide_size g
            \<noteq> Some (Inl (Fatal ''numverts = %i'')))
   \<and> (numverts \<le> 60 \<and> subdivide_size \<noteq> 0
        \<and> List.find (\<lambda>i. SubdividePolygon_axis verts subdivide_size i \<noteq> None) [0, 1, 2] = Some i
        \<and> SubdividePolygon_axis verts subdivide_size i = Some m
        \<and> length (fst (SubdividePolygon_cut verts i m)) \<le> 64
        \<and> length (snd (SubdividePolygon_cut verts i m)) \<le> 64 \<longrightarrow>
        SubdividePolygon (Suc fuel) ext face mi bsp numverts verts subdivide_size g
          = rbind (SubdividePolygon fuel ext face mi bsp
                     (int (length (fst (SubdividePolygon_cut verts i m))))
                     (fst (SubdividePolygon_cut verts i m)) subdivide_size g)
              (\<lambda>g'. SubdividePolygon fuel ext face mi bsp
                       (int (length (snd (SubdividePolygon_cut verts i m))))
                       (snd (SubdividePolygon_cut verts i m)) subdivide_size g'))"
proof (intro conjI impI)
  assume "numverts > 60"
  then show "SubdividePolygon (Suc fuel) ext face mi bsp numverts verts subdivide_size g
        = Some (Inl (Fatal ''numverts = %i''))"
    by simp
next
  assume a: "numverts \<le> 60 \<and> list_all (\<lambda>i. SubdividePolygon_axis verts subdivide_size i = None) [0, 1, 2]"
  then have none: "List.find (\<lambda>i. SubdividePolygon_axis verts subdivide_size i \<noteq> None) [0, 1, 2] = None"
    by simp
  show "SubdividePolygon (Suc fuel) ext face mi bsp numverts verts subdivide_size g \<noteq> None"
    using a none by (simp split: sum.splits)
  show "SubdividePolygon (Suc fuel) ext face mi bsp numverts verts subdivide_size g
            \<noteq> Some (Inl (Fatal ''numverts = %i''))"
  proof (cases "subdivide_size = 0")
    case True
    with a show ?thesis by simp
  next
    case False
    show ?thesis
    proof (cases "Face_TextureName bsp face")
      case (Inl e)
      with a none False Face_TextureName_error [OF Inl] show ?thesis by simp
    next
      case (Inr texname)
      show ?thesis
      proof
        assume "SubdividePolygon (Suc fuel) ext face mi bsp numverts verts subdivide_size g
            = Some (Inl (Fatal ''numverts = %i''))"
        with a none False Inr
        have "SubdividePolygon_emit ext face mi bsp numverts verts texname (surfacelight_templates g) g
            = Inl (Fatal ''numverts = %i'')"
          by simp
        from SubdividePolygon_emit_error [OF this] show False by simp
      qed
    qed
  qed
next
  assume "numverts \<le> 60 \<and> subdivide_size \<noteq> 0
        \<and> List.find (\<lambda>i. SubdividePolygon_axis verts subdivide_size i \<noteq> None) [0, 1, 2] = Some i
        \<and> SubdividePolygon_axis verts subdivide_size i = Some m
        \<and> length (fst (SubdividePolygon_cut verts i m)) \<le> 64
        \<and> length (snd (SubdividePolygon_cut verts i m)) \<le> 64"
  then show "SubdividePolygon (Suc fuel) ext face mi bsp numverts verts subdivide_size g
          = rbind (SubdividePolygon fuel ext face mi bsp
                     (int (length (fst (SubdividePolygon_cut verts i m))))
                     (fst (SubdividePolygon_cut verts i m)) subdivide_size g)
              (\<lambda>g'. SubdividePolygon fuel ext face mi bsp
                       (int (length (snd (SubdividePolygon_cut verts i m))))
                       (snd (SubdividePolygon_cut verts i m)) subdivide_size g')"
    by (simp add: split_beta Let_def del: SubdividePolygon_axis_def)
qed


theorem SubdividePolygon_cap_witness:
  "SubdividePolygon 1 example_ext example_face example_modelinfo example_bsp 61
       (replicate 61 (0, 0, 0)) 128 example_surface_globals
     = Some (Inl (Fatal ''numverts = %i''))
   \<and> SubdividePolygon 1 example_ext example_face example_modelinfo example_bsp 3
       example_triangle 128 example_surface_globals \<noteq> None
   \<and> SubdividePolygon 1 example_ext example_face example_modelinfo example_bsp 3
       example_triangle 128 example_surface_globals \<noteq> Some (Inl (Fatal ''numverts = %i''))
   \<and> SubdividePolygon 2 example_ext example_face example_modelinfo example_bsp 4
       example_square 16 example_surface_globals
     = rbind (SubdividePolygon 1 example_ext example_face example_modelinfo example_bsp 4
                [(0, 16, 0), (0, 32, 0), (0, 32, 32), (0, 16, 32)] 16 example_surface_globals)
         (SubdividePolygon 1 example_ext example_face example_modelinfo example_bsp 4
            [(0, 0, 0), (0, 16, 0), (0, 16, 32), (0, 0, 32)] 16)"
proof -
  have leaf: "list_all (\<lambda>i. SubdividePolygon_axis example_triangle 128 i = None) [0, 1, 2]"
    by code_simp
  have cut: "List.find (\<lambda>i. SubdividePolygon_axis example_square 16 i \<noteq> None) [0, 1, 2] = Some 1"
    "SubdividePolygon_axis example_square 16 1 = Some 16"
    "SubdividePolygon_cut example_square 1 16
       = ([(0, 16, 0), (0, 32, 0), (0, 32, 32), (0, 16, 32)],
          [(0, 0, 0), (0, 16, 0), (0, 16, 32), (0, 0, 32)])"
    by code_simp+
  have "SubdividePolygon 1 example_ext example_face example_modelinfo example_bsp 61
       (replicate 61 (0, 0, 0)) 128 example_surface_globals
     = Some (Inl (Fatal ''numverts = %i''))"
    using SubdividePolygon_cap [of 61 0 example_ext example_face example_modelinfo example_bsp
        "replicate 61 (0, 0, 0)" 128 example_surface_globals]
    by (simp del: SubdividePolygon.simps)
  moreover have "SubdividePolygon 1 example_ext example_face example_modelinfo example_bsp 3
       example_triangle 128 example_surface_globals \<noteq> None
     \<and> SubdividePolygon 1 example_ext example_face example_modelinfo example_bsp 3
       example_triangle 128 example_surface_globals \<noteq> Some (Inl (Fatal ''numverts = %i''))"
    using SubdividePolygon_cap [of 3 0 example_ext example_face example_modelinfo example_bsp
        example_triangle 128 example_surface_globals] leaf
    by (simp del: SubdividePolygon.simps)
  moreover have "SubdividePolygon 2 example_ext example_face example_modelinfo example_bsp 4
       example_square 16 example_surface_globals
     = rbind (SubdividePolygon 1 example_ext example_face example_modelinfo example_bsp 4
                [(0, 16, 0), (0, 32, 0), (0, 32, 32), (0, 16, 32)] 16 example_surface_globals)
         (SubdividePolygon 1 example_ext example_face example_modelinfo example_bsp 4
            [(0, 0, 0), (0, 16, 0), (0, 16, 32), (0, 0, 32)] 16)"
    using SubdividePolygon_cap [of 4 1 example_ext example_face example_modelinfo example_bsp
        example_square 16 example_surface_globals 1 16] cut
    by (simp add: numeral_2_eq_2 del: SubdividePolygon.simps)
  ultimately show ?thesis by blast
qed


text \<open>
  A polygon of 61 vertices is within the 64 of the claim and ends with the fatal error.
\<close>

theorem SubdividePolygon_61_vertices:
  "length (replicate 61 ((0, 0, 0) :: vec3_t)) = 61 \<and> (61::int) \<le> 64
   \<and> SubdividePolygon 1 example_ext example_face example_modelinfo example_bsp 61
       (replicate 61 (0, 0, 0)) 128 example_surface_globals
     = Some (Inl (Fatal ''numverts = %i''))"
  by simp

subsection \<open>Surface-light templates\<close>

lemma appends_surface_lights_refl: "appends_surface_lights g g"
  unfolding appends_surface_lights_def by (rule exI [of _ "[]"]) simp

lemma appends_surface_lights_trans:
  assumes "appends_surface_lights g g'" "appends_surface_lights g' g''"
  shows "appends_surface_lights g g''"
proof -
  from assms(1) obtain new1 where 1: "g' = g\<lparr>all_lights := all_lights g @ new1\<rparr>"
    "list_all (\<lambda>c. \<exists>t \<in> set (surfacelight_templates g).
                          c = t\<lparr>origin := origin c, generated := True,
                                spotlight := spotlight c, spotvec := spotvec c\<rparr>) new1"
    unfolding appends_surface_lights_def by blast
  from assms(2) obtain new2 where 2: "g'' = g'\<lparr>all_lights := all_lights g' @ new2\<rparr>"
    "list_all (\<lambda>c. \<exists>t \<in> set (surfacelight_templates g').
                          c = t\<lparr>origin := origin c, generated := True,
                                spotlight := spotlight c, spotvec := spotvec c\<rparr>) new2"
    unfolding appends_surface_lights_def by blast
  have "g'' = g\<lparr>all_lights := all_lights g @ (new1 @ new2)\<rparr>"
    by (simp add: 1(1) 2(1))
  moreover have "list_all (\<lambda>c. \<exists>t \<in> set (surfacelight_templates g).
                          c = t\<lparr>origin := origin c, generated := True,
                                spotlight := spotlight c, spotvec := spotvec c\<rparr>) (new1 @ new2)"
    using 1(2) 2(2) by (simp add: 1(1))
  ultimately show ?thesis
    unfolding appends_surface_lights_def by blast
qed

lemma CreateSurfaceLight_appends:
  assumes "t \<in> set (surfacelight_templates g)"
  shows "appends_surface_lights g (CreateSurfaceLight ext origin_in normal_in t g)"
proof -
  define c where "c = (if atoi ext (ValueForKey t ''_surface_spotlight'') \<noteq> 0
      then t\<lparr>origin := origin_in, generated := True, spotlight := True, spotvec := normal_in\<rparr>
      else t\<lparr>origin := origin_in, generated := True\<rparr>)"
  have "CreateSurfaceLight ext origin_in normal_in t g = g\<lparr>all_lights := all_lights g @ [c]\<rparr>"
    by (simp add: CreateSurfaceLight_def DuplicateEntity_def c_def Let_def)
  moreover have "c = t\<lparr>origin := origin c, generated := True, spotlight := spotlight c, spotvec := spotvec c\<rparr>"
    by (simp add: c_def)
  ultimately show ?thesis
    unfolding appends_surface_lights_def using assms
    by (intro exI [of _ "[c]"]) auto
qed

lemma CreateSurfaceLightOnFaceSubdivision_appends:
  assumes "t \<in> set (surfacelight_templates g)"
    and "CreateSurfaceLightOnFaceSubdivision ext face mi t bsp numverts verts g = Inr g'"
  shows "appends_surface_lights g g'"
proof -
  have nz: "numverts \<noteq> 0"
    using assms(2) by (auto simp: CreateSurfaceLightOnFaceSubdivision_def Let_def)
  obtain plane where pl: "raw_index (dplanes bsp) (face_planenum face) = Inr plane"
    using assms(2) nz
    by (cases "raw_index (dplanes bsp) (face_planenum face)")
      (auto simp: CreateSurfaceLightOnFaceSubdivision_def Let_def)
  show ?thesis
    using assms(2) nz pl
    apply (simp add: CreateSurfaceLightOnFaceSubdivision_def Let_def)
    apply hypsubst
    apply (rule CreateSurfaceLight_appends [OF assms(1)])
    done
qed

lemma appends_surface_lights_templates:
  "appends_surface_lights g g' \<Longrightarrow> surfacelight_templates g' = surfacelight_templates g"
  unfolding appends_surface_lights_def by auto

lemma SubdividePolygon_emit_appends:
  assumes "set ts \<subseteq> set (surfacelight_templates g)"
    and "SubdividePolygon_emit ext face mi bsp numverts verts texname ts g = Inr g'"
  shows "appends_surface_lights g g'"
  using assms
proof (induction ts arbitrary: g)
  case Nil
  then show ?case by (simp add: appends_surface_lights_refl)
next
  case (Cons t ts)
  show ?case
  proof (cases "Q_strcasecmp_eq texname (ValueForKey t ''_surface'')")
    case False
    with Cons show ?thesis by simp
  next
    case True
    with Cons.prems(2) obtain g1 where
      g1: "CreateSurfaceLightOnFaceSubdivision ext face mi t bsp numverts verts g = Inr g1"
        "SubdividePolygon_emit ext face mi bsp numverts verts texname ts g1 = Inr g'"
      by (auto split: sum.splits)
    have a: "appends_surface_lights g g1"
      using Cons.prems(1) g1(1) by (auto intro: CreateSurfaceLightOnFaceSubdivision_appends)
    then have "set ts \<subseteq> set (surfacelight_templates g1)"
      using Cons.prems(1) by (simp add: appends_surface_lights_templates)
    from Cons.IH [OF this g1(2)] a show ?thesis
      by (blast intro: appends_surface_lights_trans)
  qed
qed

lemma SubdividePolygon_appends:
  "SubdividePolygon fuel ext face mi bsp numverts verts subdivide_size g = Some (Inr g')
   \<Longrightarrow> appends_surface_lights g g'"
proof (induction fuel arbitrary: numverts verts g g')
  case 0
  then show ?case by simp
next
  case (Suc fuel)
  from Suc.prems have ok: "\<not> numverts > 60" "subdivide_size \<noteq> 0"
    by (auto split: if_splits)
  show ?case
  proof (cases "List.find (\<lambda>i. SubdividePolygon_axis verts subdivide_size i \<noteq> None) [0, 1, 2]")
    case None
    with Suc.prems ok obtain texname where
      "SubdividePolygon_emit ext face mi bsp numverts verts texname (surfacelight_templates g) g = Inr g'"
      by (auto split: sum.splits)
    then show ?thesis
      by (rule SubdividePolygon_emit_appends [rotated]) simp
  next
    case (Some i)
    define m where "m = the (SubdividePolygon_axis verts subdivide_size i)"
    define fr where "fr = fst (SubdividePolygon_cut verts i m)"
    define bk where "bk = snd (SubdividePolygon_cut verts i m)"
    from Suc.prems ok Some
    have "rbind (SubdividePolygon fuel ext face mi bsp (int (length fr)) fr subdivide_size g)
            (\<lambda>g1. SubdividePolygon fuel ext face mi bsp (int (length bk)) bk subdivide_size g1)
          = Some (Inr g')"
      by (simp add: Let_def split_beta m_def fr_def bk_def split: if_splits)
    then obtain g1 where
      "SubdividePolygon fuel ext face mi bsp (int (length fr)) fr subdivide_size g = Some (Inr g1)"
      "SubdividePolygon fuel ext face mi bsp (int (length bk)) bk subdivide_size g1 = Some (Inr g')"
      by (auto simp: rbind_def split: option.splits sum.splits)
    then show ?thesis
      using Suc.IH by (blast intro: appends_surface_lights_trans)
  qed
qed

lemma GL_SubdivideSurface_appends:
  "GL_SubdivideSurface fuel ext cfg face mi bsp g = Some (Inr g') \<Longrightarrow> appends_surface_lights g g'"
  by (auto simp: GL_SubdivideSurface_def split: sum.splits dest: SubdividePolygon_appends)

lemma MakeSurfaceLights_marksurface_appends:
  "MakeSurfaceLights_marksurface fuel ext cfg bsp lf k (visited, g) = Some (Inr (visited', g'))
   \<Longrightarrow> appends_surface_lights g g'"
  by (auto simp: MakeSurfaceLights_marksurface_def Let_def rbind_def appends_surface_lights_refl
      split: sum.splits option.splits if_splits dest: GL_SubdivideSurface_appends)

lemma MakeSurfaceLights_marksurfaces_appends:
  "MakeSurfaceLights_marksurfaces fuel ext cfg bsp lf ks (visited, g) = Some (Inr (visited', g'))
   \<Longrightarrow> appends_surface_lights g g'"
proof (induction ks arbitrary: visited g)
  case Nil
  then show ?case by (simp add: appends_surface_lights_refl)
next
  case (Cons k ks)
  from Cons.prems obtain v1 g1 where
    "MakeSurfaceLights_marksurface fuel ext cfg bsp lf k (visited, g) = Some (Inr (v1, g1))"
    "MakeSurfaceLights_marksurfaces fuel ext cfg bsp lf ks (v1, g1) = Some (Inr (visited', g'))"
    by (auto simp: rbind_def split: option.splits sum.splits)
  then show ?case
    using Cons.IH MakeSurfaceLights_marksurface_appends
    by (blast intro: appends_surface_lights_trans)
qed

lemma MakeSurfaceLights_leafs_appends:
  "MakeSurfaceLights_leafs fuel ext cfg bsp lfs (visited, g) = Some (Inr (visited', g'))
   \<Longrightarrow> appends_surface_lights g g'"
proof (induction lfs arbitrary: visited g)
  case Nil
  then show ?case by (simp add: appends_surface_lights_refl)
next
  case (Cons lf lfs)
  from Cons.prems obtain v1 g1 where
    "MakeSurfaceLights_marksurfaces fuel ext cfg bsp lf [0..<nat (nummarksurfaces lf)] (visited, g)
       = Some (Inr (v1, g1))"
    "MakeSurfaceLights_leafs fuel ext cfg bsp lfs (v1, g1) = Some (Inr (visited', g'))"
    by (auto simp: rbind_def split: option.splits sum.splits)
  then show ?case
    using Cons.IH MakeSurfaceLights_marksurfaces_appends
    by (blast intro: appends_surface_lights_trans)
qed

lemma MakeSurfaceLights_templates_result:
  "fst (MakeSurfaceLights_templates lights templates lg)
     = map (\<lambda>e. if ValueForKey e ''_surface'' \<noteq> [] then e\<lparr>light := 0\<rparr> else e) lights"
  "fst (snd (MakeSurfaceLights_templates lights templates lg))
     = templates @ filter (\<lambda>e. ValueForKey e ''_surface'' \<noteq> []) lights"
  by (induction lights arbitrary: templates lg) (simp_all add: Let_def split_beta)


text \<open>
  C8, as the code has it. Where \<open>MakeSurfaceLights\<close> returns, the lights that were in
  \<open>all_lights\<close> at the call are still at their places, those with a non-empty
  \<open>_surface\<close> value with their light set to 0 and the others unchanged; a copy of each
  of the former, as it was at the call, is added to \<open>surfacelight_templates\<close>; and the
  lights added behind them are copies of templates with a new origin, \<open>generated\<close> true
  and possibly a spotlight direction, so with the template's \<open>_surface\<close> value and the
  template's light.
\<close>

theorem MakeSurfaceLights_zeroes_templates:
  assumes "MakeSurfaceLights fuel ext cfg bsp g = Some (Inr g')"
  shows "\<exists>new.
      all_lights g' = map (\<lambda>e. if ValueForKey e ''_surface'' \<noteq> [] then e\<lparr>light := 0\<rparr> else e)
                        (all_lights g) @ new
    \<and> surfacelight_templates g'
        = surfacelight_templates g @ filter (\<lambda>e. ValueForKey e ''_surface'' \<noteq> []) (all_lights g)
    \<and> list_all (\<lambda>c. \<exists>t \<in> set (surfacelight_templates g').
                       c = t\<lparr>origin := origin c, generated := True,
                             spotlight := spotlight c, spotvec := spotvec c\<rparr>) new"
proof -
  define r where "r = MakeSurfaceLights_templates (all_lights g) (surfacelight_templates g) (logged g)"
  define g1 where "g1 = g\<lparr>all_lights := fst r, surfacelight_templates := fst (snd r),
      logged := snd (snd r)\<rparr>"
  have r: "fst r = map (\<lambda>e. if ValueForKey e ''_surface'' \<noteq> [] then e\<lparr>light := 0\<rparr> else e) (all_lights g)"
    "fst (snd r) = surfacelight_templates g @ filter (\<lambda>e. ValueForKey e ''_surface'' \<noteq> []) (all_lights g)"
    unfolding r_def by (rule MakeSurfaceLights_templates_result)+
  have "appends_surface_lights g1 g'"
  proof (cases "length (surfacelight_templates g1) = 0")
    case True
    with assms have "g' = g1"
      by (simp add: MakeSurfaceLights_def split_beta Let_def g1_def r_def)
    then show ?thesis by (simp add: appends_surface_lights_refl)
  next
    case False
    with assms obtain visited' where
      "MakeSurfaceLights_leafs fuel ext cfg bsp (dleafs bsp) (replicate (length (dfaces bsp)) False, g1)
         = Some (Inr (visited', g'))"
      by (auto simp: MakeSurfaceLights_def split_beta Let_def g1_def r_def rbind_def
          split: option.splits sum.splits)
    then show ?thesis by (rule MakeSurfaceLights_leafs_appends)
  qed
  then obtain new where new: "g' = g1\<lparr>all_lights := all_lights g1 @ new\<rparr>"
    "list_all (\<lambda>c. \<exists>t \<in> set (surfacelight_templates g1).
                          c = t\<lparr>origin := origin c, generated := True,
                                spotlight := spotlight c, spotvec := spotvec c\<rparr>) new"
    unfolding appends_surface_lights_def by blast
  have "all_lights g' = map (\<lambda>e. if ValueForKey e ''_surface'' \<noteq> [] then e\<lparr>light := 0\<rparr> else e)
                        (all_lights g) @ new"
    by (simp add: new(1) g1_def r(1))
  moreover have t: "surfacelight_templates g'
        = surfacelight_templates g @ filter (\<lambda>e. ValueForKey e ''_surface'' \<noteq> []) (all_lights g)"
    by (simp add: new(1) g1_def r(2))
  moreover have "surfacelight_templates g1 = surfacelight_templates g'"
    by (simp add: new(1))
  with new(2) have "list_all (\<lambda>c. \<exists>t \<in> set (surfacelight_templates g').
                       c = t\<lparr>origin := origin c, generated := True,
                             spotlight := spotlight c, spotvec := spotvec c\<rparr>) new"
    by simp
  ultimately show ?thesis by blast
qed

lemma example_surface_run:
  "MakeSurfaceLights 1 example_ext example_cfg example_bsp example_surface_globals
     = Some (Inr example_surface_result)"
  by code_simp

theorem MakeSurfaceLights_zeroes_templates_witness:
  "MakeSurfaceLights 1 example_ext example_cfg example_bsp example_surface_globals
     = Some (Inr example_surface_result)
   \<and> ValueForKey example_template ''_surface'' = ''lava1''
   \<and> all_lights example_surface_globals = [example_template]
   \<and> take 1 (all_lights example_surface_result) = [example_template\<lparr>light := 0\<rparr>]
   \<and> surfacelight_templates example_surface_result = [example_template]
   \<and> light (hd (surfacelight_templates example_surface_result)) = 300"
proof -
  have v: "ValueForKey example_template ''_surface'' = ''lava1''"
    by code_simp
  have l: "all_lights example_surface_globals = [example_template]"
    "surfacelight_templates example_surface_globals = []"
    by code_simp+
  from MakeSurfaceLights_zeroes_templates [OF example_surface_run] obtain new where
    "all_lights example_surface_result
       = map (\<lambda>e. if ValueForKey e ''_surface'' \<noteq> [] then e\<lparr>light := 0\<rparr> else e)
           (all_lights example_surface_globals) @ new"
    "surfacelight_templates example_surface_result
        = surfacelight_templates example_surface_globals
          @ filter (\<lambda>e. ValueForKey e ''_surface'' \<noteq> []) (all_lights example_surface_globals)"
    by blast
  then have "take 1 (all_lights example_surface_result) = [example_template\<lparr>light := 0\<rparr>]"
    "surfacelight_templates example_surface_result = [example_template]"
    by (simp_all add: l v)
  moreover have "light example_template = 300"
    by code_simp
  ultimately show ?thesis
    using example_surface_run v l by simp
qed

text \<open>
  The surface light made on the face of the small world has the \<open>_surface\<close> value of
  its template and the light 300 of its template, not 0.
\<close>

theorem MakeSurfaceLights_surface_light_lit:
  "MakeSurfaceLights 1 example_ext example_cfg example_bsp example_surface_globals
     = Some (Inr example_surface_result)
   \<and> ValueForKey (all_lights example_surface_result ! 1) ''_surface'' = ''lava1''
   \<and> light (all_lights example_surface_result ! 1) = 300"
  by code_simp

section \<open>Properties of the first pass of LoadEntities\<close>




















lemma find_targetname_unique:
  "find_targetname names t n = Some i \<Longrightarrow> find_targetname names t n = Some j \<Longrightarrow> i = j"
  by simp



section \<open>Properties of the entity lump\<close>

lemma plain_string_chars:
  "plain_string s \<Longrightarrow> CHR 0x22 \<notin> set s \<and> CHR ''}'' \<notin> set s \<and> CHR 0x00 \<notin> set s"
  by (auto simp: plain_string_def list_all_iff)

lemma dropWhile_spaces:
  "list_all is_space ws \<Longrightarrow> \<not> is_space c \<Longrightarrow> dropWhile is_space (ws @ c # rest) = c # rest"
  by (induction ws) auto

lemma COM_Parse_quoted:
  assumes "list_all is_space ws" and "CHR 0x22 \<notin> set s"
  shows "COM_Parse (ws @ CHR 0x22 # s @ CHR 0x22 # rest) = Some (s, rest)"
proof -
  have "\<not> is_space (CHR 0x22)" by (simp add: is_space_def)
  with assms(1) have "dropWhile is_space (ws @ CHR 0x22 # s @ CHR 0x22 # rest)
      = CHR 0x22 # s @ CHR 0x22 # rest"
    by (rule dropWhile_spaces)
  moreover from assms(2) have "takeWhile (\<lambda>x. x \<noteq> CHR 0x22) (s @ CHR 0x22 # rest) = s"
    by (induction s) auto
  moreover from assms(2) have "dropWhile (\<lambda>x. x \<noteq> CHR 0x22) (s @ CHR 0x22 # rest)
      = CHR 0x22 # rest"
    by (induction s) auto
  ultimately show ?thesis by (simp add: COM_Parse_def)
qed

lemma COM_Parse_open:
  assumes "list_all is_space ws"
  shows "COM_Parse (ws @ CHR ''{'' # rest) = Some (''{'', rest)"
proof -
  have "\<not> is_space (CHR ''{'')" by (simp add: is_space_def)
  with assms have "dropWhile is_space (ws @ CHR ''{'' # rest) = CHR ''{'' # rest"
    by (rule dropWhile_spaces)
  then show ?thesis by (simp add: COM_Parse_def)
qed

lemma COM_Parse_close:
  assumes "list_all is_space ws"
  shows "COM_Parse (ws @ CHR ''}'' # rest) = Some (''}'', rest)"
proof -
  have "\<not> is_space (CHR ''}'')" by (simp add: is_space_def)
  with assms have "dropWhile is_space (ws @ CHR ''}'' # rest) = CHR ''}'' # rest"
    by (rule dropWhile_spaces)
  then show ?thesis by (simp add: COM_Parse_def)
qed

lemma COM_Parse_end:
  assumes "list_all is_space ws"
  shows "COM_Parse ws = None"
proof -
  from assms have "dropWhile is_space ws = []" by (induction ws) auto
  then show ?thesis unfolding COM_Parse_def by (simp only: list.case)
qed

lemma entdict_assign_new:
  "key \<notin> fst ` set dict \<Longrightarrow> entdict_assign dict key val = dict @ [(key, val)]"
  by (induction dict) auto

lemma fold_entdict_assign:
  "distinct (map fst (acc @ ps))
   \<Longrightarrow> fold (\<lambda>epair entity. entdict_assign entity (fst epair) (snd epair)) ps acc = acc @ ps"
proof (induction ps arbitrary: acc)
  case Nil
  then show ?case by simp
next
  case (Cons p ps)
  from Cons.prems have new: "fst p \<notin> fst ` set acc" by auto
  from Cons.prems have "distinct (map fst ((acc @ [p]) @ ps))" by simp
  from Cons.IH [OF this] entdict_assign_new [OF new, of "snd p"] show ?case by simp
qed

lemma EntData_Parse_epairs_written:
  assumes "list_all is_space ws"
    and "list_all (\<lambda>epair. plain_string (fst epair) \<and> length (fst epair) \<le> 31
                       \<and> plain_string (snd epair) \<and> length (snd epair) \<le> 1023) ps"
  shows "EntData_Parse_epairs (ws @ concat (map EntData_Write_epair ps) @ CHR ''}'' # rest) acc
     = Inr (fold (\<lambda>epair entity. entdict_assign entity (fst epair) (snd epair)) ps acc, rest)"
  using assms
proof (induction ps arbitrary: ws acc)
  case Nil
  from COM_Parse_close [OF Nil(1), of rest] show ?case
    by (simp add: EntData_Parse_epairs.simps [of "ws @ CHR ''}'' # rest"])
next
  case (Cons p ps)
  obtain k v where p: "p = (k, v)" by (cases p)
  from Cons.prems(2) p have k: "plain_string k" "length k \<le> 31"
    and v: "plain_string v" "length v \<le> 1023"
    and ps: "list_all (\<lambda>epair. plain_string (fst epair) \<and> length (fst epair) \<le> 31
                       \<and> plain_string (snd epair) \<and> length (snd epair) \<le> 1023) ps"
    by simp_all
  let ?tail = "concat (map EntData_Write_epair ps) @ CHR ''}'' # rest"
  let ?data1 = "[CHR '' ''] @ CHR 0x22 # v @ CHR 0x22 # ([CHR 0x0A] @ ?tail)"
  let ?data = "ws @ CHR 0x22 # k @ CHR 0x22 # ?data1"
  have data: "ws @ concat (map EntData_Write_epair (p # ps)) @ CHR ''}'' # rest = ?data"
    by (simp add: p EntData_Write_epair_def)
  have key: "COM_Parse ?data = Some (k, ?data1)"
    using Cons.prems(1) plain_string_chars [OF k(1)] by (intro COM_Parse_quoted) simp_all
  have val: "COM_Parse ?data1 = Some (v, [CHR 0x0A] @ ?tail)"
    using plain_string_chars [OF v(1)] by (intro COM_Parse_quoted) (simp_all add: is_space_def)
  have kb: "k \<noteq> ''}''" using plain_string_chars [OF k(1)] by auto
  have vb: "take 1 v \<noteq> ''}''" using plain_string_chars [OF v(1)] by (cases v) auto
  have "EntData_Parse_epairs ?data acc
      = EntData_Parse_epairs ([CHR 0x0A] @ ?tail) (entdict_assign acc k v)"
    using key val kb vb k(2) v(2)
    by (subst EntData_Parse_epairs.simps) (simp add: MAX_ENT_KEY_def MAX_ENT_VALUE_def)
  also have "\<dots> = Inr (fold (\<lambda>epair entity. entdict_assign entity (fst epair) (snd epair)) ps
                          (entdict_assign acc k v), rest)"
    by (rule Cons.IH [OF _ ps]) (simp add: is_space_def)
  finally show ?case unfolding data by (simp add: p)
qed

lemma EntData_Parse_loop_written:
  assumes "list_all is_space ws" and "list_all writable_dict es"
  shows "EntData_Parse_loop (ws @ EntData_Write es) acc = Inr (acc @ es)"
  using assms
proof (induction es arbitrary: ws acc)
  case Nil
  from COM_Parse_end [OF Nil(1)] show ?case
    by (simp add: EntData_Write_def EntData_Parse_loop.simps [of ws])
next
  case (Cons e es)
  from Cons.prems(2) have e: "distinct (map fst e)"
    "list_all (\<lambda>epair. plain_string (fst epair) \<and> length (fst epair) \<le> 31
                       \<and> plain_string (snd epair) \<and> length (snd epair) \<le> 1023) e"
    by (simp_all add: writable_dict_def)
  from Cons.prems(2) have es: "list_all writable_dict es" by simp
  let ?rest = "[CHR 0x0A] @ EntData_Write es"
  let ?data1 = "[CHR 0x0A] @ concat (map EntData_Write_epair e) @ CHR ''}'' # ?rest"
  have data: "ws @ EntData_Write (e # es) = ws @ CHR ''{'' # ?data1"
    by (simp add: EntData_Write_def EntData_Write_ent_def)
  have brace: "COM_Parse (ws @ CHR ''{'' # ?data1) = Some (''{'', ?data1)"
    using Cons.prems(1) by (rule COM_Parse_open)
  have "EntData_Parse_epairs ?data1 [] =
      Inr (fold (\<lambda>epair entity. entdict_assign entity (fst epair) (snd epair)) e [], ?rest)"
    by (rule EntData_Parse_epairs_written [OF _ e(2)]) (simp add: is_space_def)
  with fold_entdict_assign [of "[]" e] e(1)
  have inner: "EntData_Parse_epairs ?data1 [] = Inr (e, ?rest)" by simp
  have "EntData_Parse_loop (ws @ CHR ''{'' # ?data1) acc = EntData_Parse_loop ?rest (acc @ [e])"
    using brace inner by (subst EntData_Parse_loop.simps) simp
  also have "\<dots> = Inr ((acc @ [e]) @ es)"
    by (rule Cons.IH [OF _ es]) (simp add: is_space_def)
  finally show ?case unfolding data by simp
qed

lemma EntData_Write_no_NUL:
  "list_all writable_dict es \<Longrightarrow> CHR 0x00 \<notin> set (EntData_Write es)"
  by (auto simp: EntData_Write_def EntData_Write_ent_def EntData_Write_epair_def
      writable_dict_def list_all_iff dest!: plain_string_chars)

text \<open>
  C5. Writing a list of entity dicts and parsing the text gives the list back, when every
  key and value is free of backslash, double quote, braces and NUL, every key is at most
  31 and every value at most 1023 characters long. A key of 32 characters, a value of
  1024 characters or a NUL in a key makes the parse of the written text a fatal error.
\<close>

theorem EntData_round_trip:
  assumes "list_all writable_dict es"
  shows "EntData_Parse (EntData_Write es) = Inr es"
proof -
  from EntData_Write_no_NUL [OF assms] have "c_str (EntData_Write es) = EntData_Write es"
    unfolding c_str_def by (intro takeWhile_eq_all_conv [THEN iffD2]) auto
  with EntData_Parse_loop_written [of "[]" es "[]"] assms show ?thesis
    by (simp add: EntData_Parse_def)
qed

theorem EntData_round_trip_witness:
  "list_all writable_dict example_switched_lights
   \<and> EntData_Parse (EntData_Write example_switched_lights) = Inr example_switched_lights"
proof -
  have "list_all writable_dict example_switched_lights" by code_simp
  with EntData_round_trip [of example_switched_lights] show ?thesis by simp
qed

theorem EntData_round_trip_limits:
  "EntData_Parse (EntData_Write [[(''0123456789abcdef0123456789abcdef'', ''1'')]])
     = Inl (Fatal ''EntData_Parse: Key length > 31'')
   \<and> EntData_Parse (EntData_Write [[(''k'', replicate 1024 (CHR ''1''))]])
     = Inl (Fatal ''EntData_Parse: Value length > 1023'')
   \<and> EntData_Parse (EntData_Write [[([CHR ''a'', CHR 0x00, CHR ''b''], ''1'')]])
     = Inl (Fatal ''EntData_Parse: EOF without closing brace'')"
  by code_simp

end
